theory Spec2Isabelle
  imports Main
begin

section \<open>The feed-forward network of \<^verbatim>\<open>modules/utils/dnn/Network.h\<close>\<close>

text \<open>
  \<^verbatim>\<open>Network<Scalar>\<close> owns a vector of layers, an output head, a callback and a random
  number generator, and drives them.  The classes \<^verbatim>\<open>Layer\<close>, \<^verbatim>\<open>Output\<close>, \<^verbatim>\<open>Callback\<close>,
  \<^verbatim>\<open>Optimizer\<close>, the matrix type and \<^verbatim>\<open>internal::create_shuffled_batches\<close> live in other
  headers; the network only calls them.  They enter the model as type variables
  (\<open>'l\<close> a layer object, \<open>'o\<close> an output head, \<open>'c\<close> the part of a callback object
  beyond its four counters, \<open>'r\<close> the generator, \<open>'p\<close> the optimizer, \<open>'m\<close> a matrix,
  \<open>'t\<close> a target, \<open>'s\<close> a scalar) and as one record of operations, the virtual
  functions that the network calls through its handles.

  Exceptions are values of the type \<open>error\<close>.  A member function that can throw returns
  the pair of \<open>error option\<close> (\<open>None\<close> for a normal return) and the state that the
  object is left in, because a C++ exception leaves every mutation made before it in
  place.  Dereferencing a null \<^verbatim>\<open>shared_ptr\<close> and indexing a vector out of range are
  undefined behaviour in C++; the model stops there with \<open>NullPointer\<close> and
  \<open>OutOfRange\<close>.
\<close>

datatype error =
    ShapeMismatch            \<comment> \<open>\<^verbatim>\<open>invalid_argument\<close>: unit sizes or input dimension\<close>
  | ParameterCountMismatch   \<comment> \<open>\<^verbatim>\<open>invalid_argument("Parameter size does not match")\<close> of the network\<close>
  | TargetMismatch           \<comment> \<open>thrown by the output head's \<^verbatim>\<open>check_target_data\<close>\<close>
  | LayerParameterError      \<comment> \<open>thrown by a layer's own \<^verbatim>\<open>set_parameters\<close>\<close>
  | NullPointer
  | OutOfRange

text \<open>
  The field \<open>calls\<close> of the network below is a ghost log.  Every call that the code of
  \<^verbatim>\<open>Network\<close> makes on a collaborator, or on one of its own private member functions,
  is appended to it at the call site, with its arguments; a layer is named by its index
  in \<^verbatim>\<open>m_layers\<close>.  Read-only accessors (\<^verbatim>\<open>in_size\<close>, \<^verbatim>\<open>output\<close>, \<^verbatim>\<open>backprop_data\<close>,
  \<^verbatim>\<open>get_parameters\<close>) are not logged.
\<close>

datatype ('m, 't, 's) call =
    LayerForward nat 'm
  | LayerBackprop nat 'm 'm
  | LayerUpdate nat
  | LayerSetParameters nat "'s list"
  | OutputCheckTargetData 't
  | OutputEvaluate 'm 't
  | OptimizerReset
  | RngSeed int
  | CreateShuffledBatches int
  | CallbackNBatch int
  | CallbackNEpoch int
  | CallbackEpochId int
  | CallbackBatchId int
  | PreTrainingBatch 'm 't
  | PostTrainingBatch 'm 't
  | NetworkForward 'm
  | NetworkBackprop 'm 't
  | NetworkUpdate

text \<open>The four public counters of \<^verbatim>\<open>Callback\<close> that \<^verbatim>\<open>fit\<close> writes; a user's callback
  class extends the record.\<close>

record Callback =
  m_nbatch :: int
  m_nepoch :: int
  m_batch_id :: int
  m_epoch_id :: int

text \<open>The data members.  \<^verbatim>\<open>m_rng\<close> is the generator that the reference \<^verbatim>\<open>m_rng\<close> denotes;
  a null \<^verbatim>\<open>shared_ptr\<close> is \<open>None\<close>.  The layers are separate objects (\<^verbatim>\<open>addLayer\<close>
  stores a fresh copy), so a list of layer values stands for the vector of handles.\<close>

record ('l, 'o, 'c, 'r, 'm, 't, 's) Network =
  m_rng :: 'r
  m_output :: "'o option"
  m_callback :: "'c Callback_scheme option"
  m_layers :: "'l list"
  calls :: "('m, 't, 's) call list"

text \<open>
  The operations of the collaborators, as the network's code uses them; every function
  of the model takes this record as its first argument.  Sizes and row counts are natural
  numbers.  A layer's \<^verbatim>\<open>forward\<close>, \<^verbatim>\<open>backprop\<close> and \<^verbatim>\<open>update\<close> return the layer object as
  they leave it (\<^verbatim>\<open>update\<close> also the optimizer, which it receives by reference).  Two
  operations can refuse their argument, and the exception then passes through the
  network's code: a layer's \<^verbatim>\<open>set_parameters\<close> returns \<open>None\<close> when it rejects the vector,
  and leaves the layer as it was; \<^verbatim>\<open>check_target_data\<close> is \<open>False\<close> when it rejects the
  target.  The other operations return normally.  The callback hooks receive the network
  read-only (\<^verbatim>\<open>this\<close>) and act on the callback object.  \<^verbatim>\<open>create_shuffled_batches\<close>
  returns its result, the two vectors it fills and the generator as it leaves it.
\<close>

record ('l, 'o, 'c, 'r, 'p, 'm, 't, 's) collaborators =
  Matrix_rows :: "'m \<Rightarrow> nat"
  Layer_in_size :: "'l \<Rightarrow> nat"
  Layer_out_size :: "'l \<Rightarrow> nat"
  Layer_forward :: "'l \<Rightarrow> 'm \<Rightarrow> 'l"
  Layer_output :: "'l \<Rightarrow> 'm"
  Layer_backprop :: "'l \<Rightarrow> 'm \<Rightarrow> 'm \<Rightarrow> 'l"
  Layer_backprop_data :: "'l \<Rightarrow> 'm"
  Layer_update :: "'l \<Rightarrow> 'p \<Rightarrow> 'l \<times> 'p"
  Layer_get_parameters :: "'l \<Rightarrow> 's list"
  Layer_set_parameters :: "'l \<Rightarrow> 's list \<Rightarrow> 'l option"
  Output_check_target_data :: "'o \<Rightarrow> 't \<Rightarrow> bool"
  Output_evaluate :: "'o \<Rightarrow> 'm \<Rightarrow> 't \<Rightarrow> 'o"
  Output_backprop_data :: "'o \<Rightarrow> 'm"
  Optimizer_reset :: "'p \<Rightarrow> 'p"
  Rng_seed :: "int \<Rightarrow> 'r"
  create_shuffled_batches :: "'m \<Rightarrow> 't \<Rightarrow> int \<Rightarrow> 'r \<Rightarrow> int \<times> 'm list \<times> 't list \<times> 'r"
  Callback_pre_training_batch ::
    "'c Callback_scheme \<Rightarrow> ('l, 'o, 'c, 'r, 'm, 't, 's) Network \<Rightarrow> 'm \<Rightarrow> 't \<Rightarrow> 'c Callback_scheme"
  Callback_post_training_batch ::
    "'c Callback_scheme \<Rightarrow> ('l, 'o, 'c, 'r, 'm, 't, 's) Network \<Rightarrow> 'm \<Rightarrow> 't \<Rightarrow> 'c Callback_scheme"

subsection \<open>Construction\<close>

text \<open>\<^verbatim>\<open>Network()\<close>: the built-in generator seeded with 1, no output head, no callback,
  no layers.\<close>

definition Network_default ::
  "('l, 'o, 'c, 'r, 'p, 'm, 't, 's) collaborators \<Rightarrow> ('l, 'o, 'c, 'r, 'm, 't, 's) Network" where
  "Network_default E =
     \<lparr>m_rng = Rng_seed E 1, m_output = None, m_callback = None, m_layers = [], calls = []\<rparr>"

definition addLayer ::
  "'l \<Rightarrow> ('l, 'o, 'c, 'r, 'm, 't, 's) Network \<Rightarrow> ('l, 'o, 'c, 'r, 'm, 't, 's) Network" where
  "addLayer layer s = s\<lparr>m_layers := m_layers s @ [layer]\<rparr>"

definition setOutput ::
  "'o \<Rightarrow> ('l, 'o, 'c, 'r, 'm, 't, 's) Network \<Rightarrow> ('l, 'o, 'c, 'r, 'm, 't, 's) Network" where
  "setOutput out s = s\<lparr>m_output := Some out\<rparr>"

definition setCallback ::
  "'c Callback_scheme \<Rightarrow> ('l, 'o, 'c, 'r, 'm, 't, 's) Network \<Rightarrow> ('l, 'o, 'c, 'r, 'm, 't, 's) Network" where
  "setCallback callback s = s\<lparr>m_callback := Some callback\<rparr>"

text \<open>\<^verbatim>\<open>num_layers\<close> converts \<^verbatim>\<open>m_layers.size()\<close> to \<^verbatim>\<open>int\<close>; the model keeps the size, a
  natural number (a vector of \<open>2^31\<close> handles or more is out of its scope).\<close>

definition num_layers :: "('l, 'o, 'c, 'r, 'm, 't, 's) Network \<Rightarrow> nat" where
  "num_layers s = length (m_layers s)"

subsection \<open>\<^verbatim>\<open>check_unit_sizes\<close>\<close>

function check_unit_sizes_loop ::
  "('l, 'o, 'c, 'r, 'p, 'm, 't, 's) collaborators \<Rightarrow> nat \<Rightarrow> nat \<Rightarrow>
   ('l, 'o, 'c, 'r, 'm, 't, 's) Network \<Rightarrow> error option \<times> ('l, 'o, 'c, 'r, 'm, 't, 's) Network" where
  "check_unit_sizes_loop E i nlayer s =
     (if i < nlayer then
        (if Layer_in_size E (m_layers s ! i) \<noteq> Layer_out_size E (m_layers s ! (i - 1))
         then (Some ShapeMismatch, s)
         else check_unit_sizes_loop E (i + 1) nlayer s)
      else (None, s))"
  by pat_completeness auto
termination
  by (relation "measure (\<lambda>(E, i, nlayer, s). nlayer - i)") auto

declare check_unit_sizes_loop.simps [simp del]

definition check_unit_sizes ::
  "('l, 'o, 'c, 'r, 'p, 'm, 't, 's) collaborators \<Rightarrow>
   ('l, 'o, 'c, 'r, 'm, 't, 's) Network \<Rightarrow> error option \<times> ('l, 'o, 'c, 'r, 'm, 't, 's) Network" where
  "check_unit_sizes E s =
     (let nlayer = num_layers s in
      if nlayer \<le> 1 then (None, s)
      else check_unit_sizes_loop E 1 nlayer s)"

subsection \<open>\<^verbatim>\<open>forward\<close>\<close>

text \<open>The call \<^verbatim>\<open>m_layers[i]->forward(x)\<close>: layer \<open>i\<close> is replaced by what its
  \<^verbatim>\<open>forward\<close> leaves, and the call is logged.\<close>

definition Layer_forward_at ::
  "('l, 'o, 'c, 'r, 'p, 'm, 't, 's) collaborators \<Rightarrow> nat \<Rightarrow> 'm \<Rightarrow> ('l, 'o, 'c, 'r, 'm, 't, 's) Network \<Rightarrow> ('l, 'o, 'c, 'r, 'm, 't, 's) Network" where
  "Layer_forward_at E i x s =
     s\<lparr>m_layers := (m_layers s)[i := Layer_forward E (m_layers s ! i) x],
       calls := calls s @ [LayerForward i x]\<rparr>"

function forward_loop ::
  "('l, 'o, 'c, 'r, 'p, 'm, 't, 's) collaborators \<Rightarrow> nat \<Rightarrow> nat \<Rightarrow> ('l, 'o, 'c, 'r, 'm, 't, 's) Network \<Rightarrow> ('l, 'o, 'c, 'r, 'm, 't, 's) Network" where
  "forward_loop E i nlayer s =
     (if i < nlayer then
        forward_loop E (i + 1) nlayer
          (Layer_forward_at E i (Layer_output E (m_layers s ! (i - 1))) s)
      else s)"
  by pat_completeness auto
termination
  by (relation "measure (\<lambda>(E, i, nlayer, s). nlayer - i)") auto

declare forward_loop.simps [simp del]

definition forward ::
  "('l, 'o, 'c, 'r, 'p, 'm, 't, 's) collaborators \<Rightarrow> ('l, 'o, 'c, 'r, 'm, 't, 's) Network \<Rightarrow> 'm \<Rightarrow> error option \<times> ('l, 'o, 'c, 'r, 'm, 't, 's) Network" where
  "forward E s input =
     (let nlayer = num_layers s in
      if nlayer \<le> 0 then (None, s)
      else if Matrix_rows E input \<noteq> Layer_in_size E (m_layers s ! 0)
      then (Some ShapeMismatch, s)
      else (None, forward_loop E 1 nlayer (Layer_forward_at E 0 input s)))"

subsection \<open>\<^verbatim>\<open>backprop\<close>\<close>

definition Layer_backprop_at ::
  "('l, 'o, 'c, 'r, 'p, 'm, 't, 's) collaborators \<Rightarrow> nat \<Rightarrow> 'm \<Rightarrow> 'm \<Rightarrow> ('l, 'o, 'c, 'r, 'm, 't, 's) Network \<Rightarrow> ('l, 'o, 'c, 'r, 'm, 't, 's) Network" where
  "Layer_backprop_at E i prev_layer_data next_layer_data s =
     s\<lparr>m_layers :=
         (m_layers s)[i := Layer_backprop E (m_layers s ! i) prev_layer_data next_layer_data],
       calls := calls s @ [LayerBackprop i prev_layer_data next_layer_data]\<rparr>"

text \<open>\<^verbatim>\<open>for (int i = nlayer - 2; i > 0; i--)\<close>\<close>

function backprop_loop ::
  "('l, 'o, 'c, 'r, 'p, 'm, 't, 's) collaborators \<Rightarrow> nat \<Rightarrow> ('l, 'o, 'c, 'r, 'm, 't, 's) Network \<Rightarrow> ('l, 'o, 'c, 'r, 'm, 't, 's) Network" where
  "backprop_loop E i s =
     (if i > 0 then
        backprop_loop E (i - 1)
          (Layer_backprop_at E i (Layer_output E (m_layers s ! (i - 1)))
             (Layer_backprop_data E (m_layers s ! (i + 1))) s)
      else s)"
  by pat_completeness auto
termination
  by (relation "measure (\<lambda>(E, i, s). i)") auto

declare backprop_loop.simps [simp del]

definition backprop ::
  "('l, 'o, 'c, 'r, 'p, 'm, 't, 's) collaborators \<Rightarrow> ('l, 'o, 'c, 'r, 'm, 't, 's) Network \<Rightarrow> 'm \<Rightarrow> 't \<Rightarrow> error option \<times> ('l, 'o, 'c, 'r, 'm, 't, 's) Network" where
  "backprop E s input target =
     (let nlayer = num_layers s in
      if nlayer \<le> 0 then (None, s)
      else
        (case m_output s of
           None \<Rightarrow> (Some NullPointer, s)
         | Some out \<Rightarrow>
             let s1 = s\<lparr>calls := calls s @ [OutputCheckTargetData target]\<rparr> in
             if \<not> Output_check_target_data E out target then (Some TargetMismatch, s1)
             else
               let last_output = Layer_output E (m_layers s1 ! (nlayer - 1));
                   out' = Output_evaluate E out last_output target;
                   s2 = s1\<lparr>m_output := Some out',
                           calls := calls s1 @ [OutputEvaluate last_output target]\<rparr>
               in
                 if nlayer = 1
                 then (None, Layer_backprop_at E 0 input (Output_backprop_data E out') s2)
                 else
                   let s3 = Layer_backprop_at E (nlayer - 1)
                              (Layer_output E (m_layers s2 ! (nlayer - 2)))
                              (Output_backprop_data E out') s2;
                       s4 = backprop_loop E (nlayer - 2) s3
                   in (None,
                       Layer_backprop_at E 0 input (Layer_backprop_data E (m_layers s4 ! 1)) s4)))"

subsection \<open>\<^verbatim>\<open>update\<close>\<close>

definition Layer_update_at ::
  "('l, 'o, 'c, 'r, 'p, 'm, 't, 's) collaborators \<Rightarrow> nat \<Rightarrow> ('l, 'o, 'c, 'r, 'm, 't, 's) Network \<Rightarrow> 'p \<Rightarrow> ('l, 'o, 'c, 'r, 'm, 't, 's) Network \<times> 'p" where
  "Layer_update_at E i s opt =
     (case Layer_update E (m_layers s ! i) opt of
        (layer', opt') \<Rightarrow>
          (s\<lparr>m_layers := (m_layers s)[i := layer'], calls := calls s @ [LayerUpdate i]\<rparr>, opt'))"

function update_loop ::
  "('l, 'o, 'c, 'r, 'p, 'm, 't, 's) collaborators \<Rightarrow> nat \<Rightarrow> nat \<Rightarrow> ('l, 'o, 'c, 'r, 'm, 't, 's) Network \<Rightarrow> 'p \<Rightarrow> ('l, 'o, 'c, 'r, 'm, 't, 's) Network \<times> 'p" where
  "update_loop E i nlayer s opt =
     (if i < nlayer then
        (case Layer_update_at E i s opt of (s', opt') \<Rightarrow> update_loop E (i + 1) nlayer s' opt')
      else (s, opt))"
  by pat_completeness auto
termination
  by (relation "measure (\<lambda>(E, i, nlayer, s, opt). nlayer - i)") auto

declare update_loop.simps [simp del]

definition update ::
  "('l, 'o, 'c, 'r, 'p, 'm, 't, 's) collaborators \<Rightarrow> ('l, 'o, 'c, 'r, 'm, 't, 's) Network \<Rightarrow> 'p \<Rightarrow> ('l, 'o, 'c, 'r, 'm, 't, 's) Network \<times> 'p" where
  "update E s opt =
     (let nlayer = num_layers s in
      if nlayer \<le> 0 then (s, opt)
      else update_loop E 0 nlayer s opt)"

subsection \<open>\<^verbatim>\<open>get_parameters\<close> and \<^verbatim>\<open>set_parameters\<close>\<close>

function get_parameters_loop ::
  "('l, 'o, 'c, 'r, 'p, 'm, 't, 's) collaborators \<Rightarrow> nat \<Rightarrow> nat \<Rightarrow> ('l, 'o, 'c, 'r, 'm, 't, 's) Network \<Rightarrow> 's list list \<Rightarrow> 's list list" where
  "get_parameters_loop E i nlayer s res =
     (if i < nlayer then
        get_parameters_loop E (i + 1) nlayer s (res @ [Layer_get_parameters E (m_layers s ! i)])
      else res)"
  by pat_completeness auto
termination
  by (relation "measure (\<lambda>(E, i, nlayer, s, res). nlayer - i)") auto

declare get_parameters_loop.simps [simp del]

definition get_parameters ::
  "('l, 'o, 'c, 'r, 'p, 'm, 't, 's) collaborators \<Rightarrow> ('l, 'o, 'c, 'r, 'm, 't, 's) Network \<Rightarrow> 's list list" where
  "get_parameters E s = (let nlayer = num_layers s in get_parameters_loop E 0 nlayer s [])"

text \<open>The loop of \<^verbatim>\<open>set_parameters\<close>.  A layer that throws ends it: the exception
  leaves the function, and the layers already set stay set.\<close>

function set_parameters_loop ::
  "('l, 'o, 'c, 'r, 'p, 'm, 't, 's) collaborators \<Rightarrow> nat \<Rightarrow> nat \<Rightarrow> 's list list \<Rightarrow> ('l, 'o, 'c, 'r, 'm, 't, 's) Network \<Rightarrow> error option \<times> ('l, 'o, 'c, 'r, 'm, 't, 's) Network" where
  "set_parameters_loop E i nlayer param s =
     (if i < nlayer then
        (let s1 = s\<lparr>calls := calls s @ [LayerSetParameters i (param ! i)]\<rparr> in
         case Layer_set_parameters E (m_layers s1 ! i) (param ! i) of
           None \<Rightarrow> (Some LayerParameterError, s1)
         | Some layer' \<Rightarrow>
             set_parameters_loop E (i + 1) nlayer param
               (s1\<lparr>m_layers := (m_layers s1)[i := layer']\<rparr>))
      else (None, s))"
  by pat_completeness auto
termination
  by (relation "measure (\<lambda>(E, i, nlayer, param, s). nlayer - i)") auto

declare set_parameters_loop.simps [simp del]

text \<open>
  The conversion of a container size to \<^verbatim>\<open>int\<close>: the size is reduced modulo \<open>2^32\<close> into
  the range of a 32-bit signed integer.  \<^verbatim>\<open>set_parameters\<close> compares
  \<^verbatim>\<open>static_cast<int>(param.size())\<close> with \<^verbatim>\<open>nlayer\<close>, which is \<^verbatim>\<open>m_layers.size()\<close> converted
  in the same way by \<^verbatim>\<open>num_layers\<close>.  On a size below \<open>2^31\<close> the conversion is the
  identity.
\<close>

definition static_cast_int :: "nat \<Rightarrow> int" where
  "static_cast_int n =
     (let m = int n mod 2 ^ 32 in if m < 2 ^ 31 then m else m - 2 ^ 32)"

text \<open>The comparison is on the converted sizes, as in the source; the loop runs over the
  layers.  When the comparison passes on a network of fewer than \<open>2^31\<close> layers, \<open>param\<close>
  has at least as many vectors as there are layers, so \<^verbatim>\<open>param[i]\<close> is in range.\<close>

definition set_parameters ::
  "('l, 'o, 'c, 'r, 'p, 'm, 't, 's) collaborators \<Rightarrow> ('l, 'o, 'c, 'r, 'm, 't, 's) Network \<Rightarrow> 's list list \<Rightarrow> error option \<times> ('l, 'o, 'c, 'r, 'm, 't, 's) Network" where
  "set_parameters E s param =
     (let nlayer = num_layers s in
      if static_cast_int (length param) \<noteq> static_cast_int nlayer
      then (Some ParameterCountMismatch, s)
      else set_parameters_loop E 0 nlayer param s)"

subsection \<open>\<^verbatim>\<open>fit\<close>\<close>

text \<open>A write to a counter through \<^verbatim>\<open>m_callback\<close>, and a call of a hook through it.\<close>

definition callback_write ::
  "('c Callback_scheme \<Rightarrow> 'c Callback_scheme) \<Rightarrow> ('m, 't, 's) call \<Rightarrow> ('l, 'o, 'c, 'r, 'm, 't, 's) Network \<Rightarrow>
   error option \<times> ('l, 'o, 'c, 'r, 'm, 't, 's) Network" where
  "callback_write f c s =
     (case m_callback s of
        None \<Rightarrow> (Some NullPointer, s)
      | Some cb \<Rightarrow> (None, s\<lparr>m_callback := Some (f cb), calls := calls s @ [c]\<rparr>))"

definition callback_hook ::
  "('c Callback_scheme \<Rightarrow> ('l, 'o, 'c, 'r, 'm, 't, 's) Network \<Rightarrow> 'm \<Rightarrow> 't \<Rightarrow> 'c Callback_scheme) \<Rightarrow> ('m, 't, 's) call \<Rightarrow>
   'm \<Rightarrow> 't \<Rightarrow> ('l, 'o, 'c, 'r, 'm, 't, 's) Network \<Rightarrow> error option \<times> ('l, 'o, 'c, 'r, 'm, 't, 's) Network" where
  "callback_hook hook c x y s =
     (case m_callback s of
        None \<Rightarrow> (Some NullPointer, s)
      | Some cb \<Rightarrow> (None, s\<lparr>m_callback := Some (hook cb s x y), calls := calls s @ [c]\<rparr>))"

text \<open>The body of the inner loop, for the batch index \<open>i\<close>.\<close>

definition train_batch ::
  "('l, 'o, 'c, 'r, 'p, 'm, 't, 's) collaborators \<Rightarrow> 'm list \<Rightarrow> 't list \<Rightarrow> int \<Rightarrow> ('l, 'o, 'c, 'r, 'm, 't, 's) Network \<Rightarrow> 'p \<Rightarrow> error option \<times> ('l, 'o, 'c, 'r, 'm, 't, 's) Network \<times> 'p" where
  "train_batch E x_batches y_batches i s opt =
     (case callback_write (\<lambda>cb. cb\<lparr>m_batch_id := i\<rparr>) (CallbackBatchId i) s of
        (Some e, s1) \<Rightarrow> (Some e, s1, opt)
      | (None, s1) \<Rightarrow>
          if \<not> (0 \<le> i \<and> nat i < length x_batches \<and> nat i < length y_batches)
          then (Some OutOfRange, s1, opt)
          else
            let x = x_batches ! nat i; y = y_batches ! nat i in
            (case callback_hook (Callback_pre_training_batch E) (PreTrainingBatch x y) x y s1 of
               (Some e, s2) \<Rightarrow> (Some e, s2, opt)
             | (None, s2) \<Rightarrow>
                 (case forward E (s2\<lparr>calls := calls s2 @ [NetworkForward x]\<rparr>) x of
                    (Some e, s3) \<Rightarrow> (Some e, s3, opt)
                  | (None, s3) \<Rightarrow>
                      (case backprop E (s3\<lparr>calls := calls s3 @ [NetworkBackprop x y]\<rparr>) x y of
                         (Some e, s4) \<Rightarrow> (Some e, s4, opt)
                       | (None, s4) \<Rightarrow>
                           (case update E (s4\<lparr>calls := calls s4 @ [NetworkUpdate]\<rparr>) opt of
                              (s5, opt') \<Rightarrow>
                                (case callback_hook (Callback_post_training_batch E)
                                        (PostTrainingBatch x y) x y s5 of
                                   (r, s6) \<Rightarrow> (r, s6, opt')))))))"

text \<open>\<^verbatim>\<open>for (int i = 0; i < nbatch; i++)\<close>\<close>

function batch_loop ::
  "('l, 'o, 'c, 'r, 'p, 'm, 't, 's) collaborators \<Rightarrow> 'm list \<Rightarrow> 't list \<Rightarrow> int \<Rightarrow> int \<Rightarrow> ('l, 'o, 'c, 'r, 'm, 't, 's) Network \<Rightarrow> 'p \<Rightarrow> error option \<times> ('l, 'o, 'c, 'r, 'm, 't, 's) Network \<times> 'p" where
  "batch_loop E x_batches y_batches i nbatch s opt =
     (if i < nbatch then
        (case train_batch E x_batches y_batches i s opt of
           (Some e, s', opt') \<Rightarrow> (Some e, s', opt')
         | (None, s', opt') \<Rightarrow> batch_loop E x_batches y_batches (i + 1) nbatch s' opt')
      else (None, s, opt))"
  by pat_completeness auto
termination
  by (relation "measure (\<lambda>(E, x_batches, y_batches, i, nbatch, s, opt). nat (nbatch - i))") auto

declare batch_loop.simps [simp del]

text \<open>\<^verbatim>\<open>for (int k = 0; k < epoch; k++)\<close>\<close>

function epoch_loop ::
  "('l, 'o, 'c, 'r, 'p, 'm, 't, 's) collaborators \<Rightarrow> 'm list \<Rightarrow> 't list \<Rightarrow> int \<Rightarrow> int \<Rightarrow> int \<Rightarrow> ('l, 'o, 'c, 'r, 'm, 't, 's) Network \<Rightarrow> 'p \<Rightarrow> error option \<times> ('l, 'o, 'c, 'r, 'm, 't, 's) Network \<times> 'p" where
  "epoch_loop E x_batches y_batches nbatch k epoch s opt =
     (if k < epoch then
        (case callback_write (\<lambda>cb. cb\<lparr>m_epoch_id := k\<rparr>) (CallbackEpochId k) s of
           (Some e, s1) \<Rightarrow> (Some e, s1, opt)
         | (None, s1) \<Rightarrow>
             (case batch_loop E x_batches y_batches 0 nbatch s1 opt of
                (Some e, s2, opt') \<Rightarrow> (Some e, s2, opt')
              | (None, s2, opt') \<Rightarrow> epoch_loop E x_batches y_batches nbatch (k + 1) epoch s2 opt'))
      else (None, s, opt))"
  by pat_completeness auto
termination
  by (relation "measure (\<lambda>(E, x_batches, y_batches, nbatch, k, epoch, s, opt). nat (epoch - k))") auto

declare epoch_loop.simps [simp del]

text \<open>\<^verbatim>\<open>fit\<close> returns \<open>Inr\<close> of its \<^verbatim>\<open>bool\<close>, or \<open>Inl\<close> of the exception that left it, with
  the network and the optimizer as they are then.\<close>

definition fit ::
  "('l, 'o, 'c, 'r, 'p, 'm, 't, 's) collaborators \<Rightarrow> ('l, 'o, 'c, 'r, 'm, 't, 's) Network \<Rightarrow> 'p \<Rightarrow> 'm \<Rightarrow> 't \<Rightarrow> int \<Rightarrow> int \<Rightarrow> int \<Rightarrow> (error + bool) \<times> ('l, 'o, 'c, 'r, 'm, 't, 's) Network \<times> 'p" where
  "fit E s opt x y batch_size epoch seed =
     (let nlayer = num_layers s in
      if nlayer \<le> 0 then (Inr False, s, opt)
      else
        let opt1 = Optimizer_reset E opt;
            s1 = s\<lparr>calls := calls s @ [OptimizerReset]\<rparr>;
            s2 = (if seed > 0
                  then s1\<lparr>m_rng := Rng_seed E seed, calls := calls s1 @ [RngSeed seed]\<rparr>
                  else s1)
        in
          (case create_shuffled_batches E x y batch_size (m_rng s2) of
             (nbatch, x_batches, y_batches, rng') \<Rightarrow>
               let s3 = s2\<lparr>m_rng := rng', calls := calls s2 @ [CreateShuffledBatches batch_size]\<rparr> in
               (case callback_write (\<lambda>cb. cb\<lparr>m_nbatch := nbatch\<rparr>) (CallbackNBatch nbatch) s3 of
                  (Some e, s4) \<Rightarrow> (Inl e, s4, opt1)
                | (None, s4) \<Rightarrow>
                    (case callback_write (\<lambda>cb. cb\<lparr>m_nepoch := epoch\<rparr>) (CallbackNEpoch epoch) s4 of
                       (Some e, s5) \<Rightarrow> (Inl e, s5, opt1)
                     | (None, s5) \<Rightarrow>
                         (case epoch_loop E x_batches y_batches nbatch 0 epoch s5 opt1 of
                            (Some e, s6, opt2) \<Rightarrow> (Inl e, s6, opt2)
                          | (None, s6, opt2) \<Rightarrow> (Inr True, s6, opt2))))))"

subsection \<open>Reading the log\<close>

text \<open>The calls that the body of \<^verbatim>\<open>fit\<close> makes itself, as opposed to the calls made inside
  \<^verbatim>\<open>forward\<close>, \<^verbatim>\<open>backprop\<close>, \<^verbatim>\<open>update\<close> and \<^verbatim>\<open>set_parameters\<close>.\<close>

fun made_by_fit :: "('m, 't, 's) call \<Rightarrow> bool" where
  "made_by_fit (LayerForward i x) = False"
| "made_by_fit (LayerBackprop i x g) = False"
| "made_by_fit (LayerUpdate i) = False"
| "made_by_fit (LayerSetParameters i v) = False"
| "made_by_fit (OutputCheckTargetData y) = False"
| "made_by_fit (OutputEvaluate x y) = False"
| "made_by_fit OptimizerReset = True"
| "made_by_fit (RngSeed n) = True"
| "made_by_fit (CreateShuffledBatches n) = True"
| "made_by_fit (CallbackNBatch n) = True"
| "made_by_fit (CallbackNEpoch n) = True"
| "made_by_fit (CallbackEpochId n) = True"
| "made_by_fit (CallbackBatchId n) = True"
| "made_by_fit (PreTrainingBatch x y) = True"
| "made_by_fit (PostTrainingBatch x y) = True"
| "made_by_fit (NetworkForward x) = True"
| "made_by_fit (NetworkBackprop x y) = True"
| "made_by_fit NetworkUpdate = True"

text \<open>The six calls of one pass through the inner loop of \<^verbatim>\<open>fit\<close>, for batch \<open>i\<close>.\<close>

definition batch_calls :: "'m list \<Rightarrow> 't list \<Rightarrow> nat \<Rightarrow> ('m, 't, 's) call list" where
  "batch_calls x_batches y_batches i =
     [CallbackBatchId (int i),
      PreTrainingBatch (x_batches ! i) (y_batches ! i),
      NetworkForward (x_batches ! i),
      NetworkBackprop (x_batches ! i) (y_batches ! i),
      NetworkUpdate,
      PostTrainingBatch (x_batches ! i) (y_batches ! i)]"

text \<open>The calls of the epoch \<open>k\<close> over \<open>n\<close> batches.\<close>

definition epoch_calls :: "'m list \<Rightarrow> 't list \<Rightarrow> nat \<Rightarrow> nat \<Rightarrow> ('m, 't, 's) call list" where
  "epoch_calls x_batches y_batches n k =
     CallbackEpochId (int k) # concat (map (batch_calls x_batches y_batches) [0..<n])"


text \<open>The writes of \<^verbatim>\<open>fit\<close> to the four counters of the callback.\<close>

fun is_counter_write :: "('m, 't, 's) call \<Rightarrow> bool" where
  "is_counter_write (CallbackNBatch n) = True"
| "is_counter_write (CallbackNEpoch n) = True"
| "is_counter_write (CallbackEpochId n) = True"
| "is_counter_write (CallbackBatchId n) = True"
| "is_counter_write c = False"



text \<open>The states in which the inner loop of \<^verbatim>\<open>fit\<close> can train a batch of \<open>d\<close> rows: there
  is a layer, the first layer takes \<open>d\<close> rows, and both handles are set.\<close>

definition trainable ::
  "('l, 'o, 'c, 'r, 'p, 'm, 't, 's) collaborators \<Rightarrow> nat \<Rightarrow> ('l, 'o, 'c, 'r, 'm, 't, 's) Network \<Rightarrow> bool" where
  "trainable E d s \<longleftrightarrow>
     m_layers s \<noteq> [] \<and> Layer_in_size E (m_layers s ! 0) = d \<and>
     m_callback s \<noteq> None \<and> m_output s \<noteq> None"

subsection \<open>One training step on the list of layers\<close>

text \<open>
  What \<^verbatim>\<open>forward\<close>, \<^verbatim>\<open>backprop\<close> and \<^verbatim>\<open>update\<close> compute, written by recursion on
  \<^verbatim>\<open>m_layers\<close> instead of by index.  These functions are not the model of the three
  methods (that is \<open>forward\<close>, \<open>backprop\<close> and \<open>update\<close> above); the section on training
  proves that the loops of the source compute them.

  \<^verbatim>\<open>forward\<close>: the first layer gets the input, each later layer the output of the layer
  before it.
\<close>

fun forward_layers ::
  "('l, 'o, 'c, 'r, 'p, 'm, 't, 's) collaborators \<Rightarrow> 'm \<Rightarrow> 'l list \<Rightarrow> 'l list" where
  "forward_layers E x [] = []"
| "forward_layers E x (l # ls) =
     (let l' = Layer_forward E l x in l' # forward_layers E (Layer_output E l') ls)"

text \<open>\<^verbatim>\<open>backprop\<close>: the layers are visited from the last to the first.  A layer gets as its
  input the output of the layer before it (the input \<open>x\<close> for the first layer), and as
  the data of the next layer the gradient \<open>g\<close> of the output head (for the last layer) or
  the gradient that the layer after it has just computed.  The second component is the
  gradient that the first layer of the list leaves.\<close>

fun backprop_layers ::
  "('l, 'o, 'c, 'r, 'p, 'm, 't, 's) collaborators \<Rightarrow> 'm \<Rightarrow> 'm \<Rightarrow> 'l list \<Rightarrow> 'l list \<times> 'm" where
  "backprop_layers E x g [] = ([], g)"
| "backprop_layers E x g (l # ls) =
     (case backprop_layers E (Layer_output E l) g ls of
        (ls', g') \<Rightarrow>
          (let l' = Layer_backprop E l x g' in (l' # ls', Layer_backprop_data E l')))"

text \<open>\<^verbatim>\<open>update\<close>: the optimizer goes through the layers in pipeline order.\<close>

fun update_layers ::
  "('l, 'o, 'c, 'r, 'p, 'm, 't, 's) collaborators \<Rightarrow> 'l list \<Rightarrow> 'p \<Rightarrow> 'l list \<times> 'p" where
  "update_layers E [] opt = ([], opt)"
| "update_layers E (l # ls) opt =
     (case Layer_update E l opt of
        (l', opt') \<Rightarrow>
          (case update_layers E ls opt' of (ls', opt'') \<Rightarrow> (l' # ls', opt'')))"

text \<open>The body of the inner loop of \<^verbatim>\<open>fit\<close> between the two hooks, on the layers, the
  output head and the optimizer.\<close>

fun train_step ::
  "('l, 'o, 'c, 'r, 'p, 'm, 't, 's) collaborators \<Rightarrow> 'm \<times> 't \<Rightarrow> 'l list \<times> 'o \<times> 'p \<Rightarrow>
   'l list \<times> 'o \<times> 'p" where
  "train_step E (x, y) (ls, out, opt) =
     (let ls1 = forward_layers E x ls;
          out' = Output_evaluate E out (Layer_output E (last ls1)) y;
          ls2 = fst (backprop_layers E x (Output_backprop_data E out') ls1)
      in case update_layers E ls2 opt of (ls3, opt') \<Rightarrow> (ls3, out', opt'))"

section \<open>A small instance\<close>

text \<open>
  Concrete collaborators on which the model runs, small enough to evaluate by hand.  They
  stand for no class of the library; they show that the hypotheses of the theorems below
  can be met.  A matrix is the list of its columns.  A layer keeps its two sizes, its last
  output, its last gradient and its parameters; it accepts a parameter vector of the
  length it already has.  The batch maker rotates the columns by the generator's state,
  cuts them after \<open>batch_size\<close> columns into two batches, and advances the generator.
\<close>

record toy_layer =
  t_in :: nat
  t_out :: nat
  t_output :: "int list list"
  t_grad :: "int list list"
  t_params :: "int list"

definition toy ::
  "(toy_layer, int list list, unit, nat, nat, int list list, int list list, int) collaborators" where
  "toy =
     \<lparr>Matrix_rows = (\<lambda>m. case m of [] \<Rightarrow> 0 | c # _ \<Rightarrow> length c),
      Layer_in_size = t_in,
      Layer_out_size = t_out,
      Layer_forward = (\<lambda>l x. l\<lparr>t_output := map (\<lambda>c. replicate (t_out l) (sum_list c + sum_list (t_params l))) x\<rparr>),
      Layer_output = t_output,
      Layer_backprop = (\<lambda>l x g. l\<lparr>t_grad := map (\<lambda>c. replicate (t_in l) (sum_list c)) g\<rparr>),
      Layer_backprop_data = t_grad,
      Layer_update = (\<lambda>l p. (l\<lparr>t_params := map (\<lambda>v. v - 1) (t_params l)\<rparr>, p + 1)),
      Layer_get_parameters = t_params,
      Layer_set_parameters =
        (\<lambda>l v. if length v = length (t_params l) then Some (l\<lparr>t_params := v\<rparr>) else None),
      Output_check_target_data = (\<lambda>out t. t \<noteq> []),
      Output_evaluate = (\<lambda>out m t. map2 (map2 (-)) m t),
      Output_backprop_data = (\<lambda>out. out),
      Optimizer_reset = (\<lambda>p. 0),
      Rng_seed = nat,
      create_shuffled_batches =
        (\<lambda>x y batch_size r.
           (2, [take (nat batch_size) (rotate r x), drop (nat batch_size) (rotate r x)],
               [take (nat batch_size) (rotate r y), drop (nat batch_size) (rotate r y)], r + 1)),
      Callback_pre_training_batch = (\<lambda>cb s x y. cb),
      Callback_post_training_batch = (\<lambda>cb s x y. cb)\<rparr>"

definition toy_layer1 :: toy_layer where
  "toy_layer1 = \<lparr>t_in = 1, t_out = 2, t_output = [], t_grad = [], t_params = [3, 4]\<rparr>"

definition toy_layer2 :: toy_layer where
  "toy_layer2 = \<lparr>t_in = 2, t_out = 1, t_output = [], t_grad = [], t_params = [5]\<rparr>"

definition toy_callback :: Callback where
  "toy_callback = \<lparr>m_nbatch = 0, m_nepoch = 0, m_batch_id = 0, m_epoch_id = 0\<rparr>"

definition toy_network ::
  "(toy_layer, int list list, unit, nat, int list list, int list list, int) Network" where
  "toy_network = setCallback toy_callback (setOutput [] (addLayer toy_layer2 (addLayer toy_layer1 (Network_default toy))))"


text \<open>A data set of three observations with one feature each, and its targets.\<close>

definition toy_x :: "int list list" where
  "toy_x = [[1], [2], [3]]"

definition toy_y :: "int list list" where
  "toy_y = [[0], [1], [0]]"

text \<open>The same network as the constructor and \<^verbatim>\<open>addLayer\<close>, \<^verbatim>\<open>setOutput\<close> build it when
  \<^verbatim>\<open>setCallback\<close> is never called.\<close>

definition toy_network_no_callback ::
  "(toy_layer, int list list, unit, nat, int list list, int list list, int) Network" where
  "toy_network_no_callback =
     setOutput [] (addLayer toy_layer2 (addLayer toy_layer1 (Network_default toy)))"

definition toy_network3 ::
  "(toy_layer, int list list, unit, nat, int list list, int list list, int) Network" where
  "toy_network3 = addLayer toy_layer2 toy_network"

section \<open>Shape validation\<close>

lemma check_unit_sizes_loop_eq:
  "check_unit_sizes_loop E i nlayer s =
     ((if \<exists>j. i \<le> j \<and> j < nlayer \<and>
            Layer_in_size E (m_layers s ! j) \<noteq> Layer_out_size E (m_layers s ! (j - 1))
       then Some ShapeMismatch else None), s)"
proof (induction E i nlayer s rule: check_unit_sizes_loop.induct)
  case (1 E i nlayer s)
  show ?case
  proof (cases "i < nlayer")
    case False
    then show ?thesis
      by (subst check_unit_sizes_loop.simps) auto
  next
    case True
    show ?thesis
    proof (cases "Layer_in_size E (m_layers s ! i) \<noteq> Layer_out_size E (m_layers s ! (i - 1))")
      case True
      with \<open>i < nlayer\<close> show ?thesis
        by (subst check_unit_sizes_loop.simps) auto
    next
      case False
      have "(\<exists>j. i \<le> j \<and> j < nlayer \<and>
            Layer_in_size E (m_layers s ! j) \<noteq> Layer_out_size E (m_layers s ! (j - 1)))
         = (\<exists>j. i + 1 \<le> j \<and> j < nlayer \<and>
            Layer_in_size E (m_layers s ! j) \<noteq> Layer_out_size E (m_layers s ! (j - 1)))"
        using False by (metis Suc_eq_plus1 Suc_leI le_neq_implies_less add_leD1)
      with "1.IH" [OF True] False True show ?thesis
        by (subst check_unit_sizes_loop.simps) simp
    qed
  qed
qed

text \<open>
  Claim C5.  \<^verbatim>\<open>check_unit_sizes\<close> returns normally on a pipeline of zero or one layer.
  On a pipeline of two or more layers it throws the shape error exactly when some
  adjacent pair has the output size of layer \<open>i\<close> different from the input size of layer
  \<open>i + 1\<close>.  It throws nothing else, and it leaves the network as it found it.
\<close>

theorem check_unit_sizes_adjacent:
  "(num_layers s \<le> 1 \<longrightarrow> check_unit_sizes E s = (None, s)) \<and>
   (2 \<le> num_layers s \<longrightarrow>
      (fst (check_unit_sizes E s) = Some ShapeMismatch) =
      (\<exists>i. i + 1 < num_layers s \<and>
           Layer_out_size E (m_layers s ! i) \<noteq> Layer_in_size E (m_layers s ! (i + 1)))) \<and>
   (fst (check_unit_sizes E s) = None \<or> fst (check_unit_sizes E s) = Some ShapeMismatch) \<and>
   snd (check_unit_sizes E s) = s"
proof -
  have shift: "(\<exists>j. 1 \<le> j \<and> j < n \<and>
            Layer_in_size E (m_layers s ! j) \<noteq> Layer_out_size E (m_layers s ! (j - 1)))
       = (\<exists>i. i + 1 < n \<and>
           Layer_out_size E (m_layers s ! i) \<noteq> Layer_in_size E (m_layers s ! (i + 1)))" for n
  proof
    assume "\<exists>j. 1 \<le> j \<and> j < n \<and>
            Layer_in_size E (m_layers s ! j) \<noteq> Layer_out_size E (m_layers s ! (j - 1))"
    then obtain j where "1 \<le> j" "j < n"
      "Layer_in_size E (m_layers s ! j) \<noteq> Layer_out_size E (m_layers s ! (j - 1))" by blast
    then have "(j - 1) + 1 < n \<and>
      Layer_out_size E (m_layers s ! (j - 1)) \<noteq> Layer_in_size E (m_layers s ! ((j - 1) + 1))"
      by auto
    then show "\<exists>i. i + 1 < n \<and>
           Layer_out_size E (m_layers s ! i) \<noteq> Layer_in_size E (m_layers s ! (i + 1))" by blast
  next
    assume "\<exists>i. i + 1 < n \<and>
           Layer_out_size E (m_layers s ! i) \<noteq> Layer_in_size E (m_layers s ! (i + 1))"
    then obtain i where "i + 1 < n"
      "Layer_out_size E (m_layers s ! i) \<noteq> Layer_in_size E (m_layers s ! (i + 1))" by blast
    then have "1 \<le> i + 1 \<and> i + 1 < n \<and>
      Layer_in_size E (m_layers s ! (i + 1)) \<noteq> Layer_out_size E (m_layers s ! ((i + 1) - 1))"
      by auto
    then show "\<exists>j. 1 \<le> j \<and> j < n \<and>
            Layer_in_size E (m_layers s ! j) \<noteq> Layer_out_size E (m_layers s ! (j - 1))" by blast
  qed
  have "check_unit_sizes E s =
      (if num_layers s \<le> 1 then (None, s)
       else ((if \<exists>i. i + 1 < num_layers s \<and>
           Layer_out_size E (m_layers s ! i) \<noteq> Layer_in_size E (m_layers s ! (i + 1))
          then Some ShapeMismatch else None), s))"
    unfolding check_unit_sizes_def Let_def check_unit_sizes_loop_eq shift ..
  then show ?thesis
    by (cases "num_layers s \<le> 1") simp_all
qed


theorem check_unit_sizes_adjacent_witness:
  "num_layers (Network_default toy) \<le> 1 \<and>
   check_unit_sizes toy (Network_default toy) = (None, Network_default toy) \<and>
   2 \<le> num_layers toy_network \<and> check_unit_sizes toy toy_network = (None, toy_network) \<and>
   2 \<le> num_layers toy_network3 \<and>
   check_unit_sizes toy toy_network3 = (Some ShapeMismatch, toy_network3)"
  using check_unit_sizes_adjacent [of "Network_default toy" toy]
    check_unit_sizes_adjacent [of toy_network toy]
    check_unit_sizes_adjacent [of toy_network3 toy]
  by (simp add: toy_def toy_layer1_def toy_layer2_def toy_callback_def toy_network_def
      toy_network3_def Network_default_def addLayer_def setOutput_def setCallback_def
      num_layers_def check_unit_sizes_def check_unit_sizes_loop.simps)

section \<open>Forward pass\<close>

lemma forward_loop_run:
  assumes "nlayer \<le> length (m_layers s)" and "1 \<le> i"
  shows "length (m_layers (forward_loop E i nlayer s)) = length (m_layers s) \<and>
    (\<forall>k. k < i \<or> nlayer \<le> k \<longrightarrow> m_layers (forward_loop E i nlayer s) ! k = m_layers s ! k) \<and>
    (\<forall>k. i \<le> k \<and> k < nlayer \<longrightarrow>
       m_layers (forward_loop E i nlayer s) ! k =
       Layer_forward E (m_layers s ! k)
         (Layer_output E (m_layers (forward_loop E i nlayer s) ! (k - 1)))) \<and>
    calls (forward_loop E i nlayer s) =
      calls s @ map (\<lambda>k. LayerForward k
         (Layer_output E (m_layers (forward_loop E i nlayer s) ! (k - 1)))) [i..<nlayer] \<and>
    m_output (forward_loop E i nlayer s) = m_output s \<and>
    m_callback (forward_loop E i nlayer s) = m_callback s \<and>
    m_rng (forward_loop E i nlayer s) = m_rng s"
  using assms
proof (induction E i nlayer s rule: forward_loop.induct)
  case (1 E i nlayer s)
  show ?case
  proof (cases "i < nlayer")
    case False
    then have "forward_loop E i nlayer s = s"
      by (subst forward_loop.simps) simp
    with False show ?thesis by auto
  next
    case True
    define s1 where "s1 = Layer_forward_at E i (Layer_output E (m_layers s ! (i - 1))) s"
    define s' where "s' = forward_loop E (i + 1) nlayer s1"
    have step: "forward_loop E i nlayer s = s'"
      using True by (subst forward_loop.simps) (simp add: s1_def s'_def)
    have len: "nlayer \<le> length (m_layers s1)"
      using "1.prems" by (simp add: s1_def Layer_forward_at_def)
    have nth1: "m_layers s1 ! k =
        (if k = i then Layer_forward E (m_layers s ! i) (Layer_output E (m_layers s ! (i - 1)))
         else m_layers s ! k)" for k
      using True "1.prems" by (simp add: s1_def Layer_forward_at_def nth_list_update)
    have IH: "length (m_layers s') = length (m_layers s1) \<and>
      (\<forall>k. k < i + 1 \<or> nlayer \<le> k \<longrightarrow> m_layers s' ! k = m_layers s1 ! k) \<and>
      (\<forall>k. i + 1 \<le> k \<and> k < nlayer \<longrightarrow>
         m_layers s' ! k = Layer_forward E (m_layers s1 ! k) (Layer_output E (m_layers s' ! (k - 1)))) \<and>
      calls s' = calls s1 @ map (\<lambda>k. LayerForward k (Layer_output E (m_layers s' ! (k - 1)))) [i + 1..<nlayer] \<and>
      m_output s' = m_output s1 \<and> m_callback s' = m_callback s1 \<and> m_rng s' = m_rng s1"
      using "1.IH" True len "1.prems" by (simp add: s'_def s1_def)
    have "i - 1 < i + 1" and "i - 1 \<noteq> i"
      using "1.prems" by simp_all
    with IH have prev: "m_layers s' ! (i - 1) = m_layers s ! (i - 1)"
      by (simp add: nth1)
    have "length (m_layers s') = length (m_layers s)"
      using IH by (simp add: s1_def Layer_forward_at_def)
    moreover have "\<forall>k. k < i \<or> nlayer \<le> k \<longrightarrow> m_layers s' ! k = m_layers s ! k"
      using IH True by (auto simp: nth1)
    moreover have "\<forall>k. i \<le> k \<and> k < nlayer \<longrightarrow>
       m_layers s' ! k = Layer_forward E (m_layers s ! k) (Layer_output E (m_layers s' ! (k - 1)))"
    proof (intro allI impI)
      fix k assume k: "i \<le> k \<and> k < nlayer"
      show "m_layers s' ! k = Layer_forward E (m_layers s ! k) (Layer_output E (m_layers s' ! (k - 1)))"
      proof (cases "k = i")
        case True
        with IH have "m_layers s' ! k = m_layers s1 ! k" by simp
        with True prev show ?thesis by (simp add: nth1)
      next
        case False
        with k IH have "m_layers s' ! k =
          Layer_forward E (m_layers s1 ! k) (Layer_output E (m_layers s' ! (k - 1)))" by simp
        with False show ?thesis by (simp add: nth1)
      qed
    qed
    moreover have "calls s' =
      calls s @ map (\<lambda>k. LayerForward k (Layer_output E (m_layers s' ! (k - 1)))) [i..<nlayer]"
      using IH True prev by (simp add: s1_def Layer_forward_at_def upt_conv_Cons)
    moreover have "m_output s' = m_output s \<and> m_callback s' = m_callback s \<and> m_rng s' = m_rng s"
      using IH by (simp add: s1_def Layer_forward_at_def)
    ultimately show ?thesis
      unfolding step by simp
  qed
qed

lemma forward_run:
  assumes "m_layers s \<noteq> []"
    and "Matrix_rows E input = Layer_in_size E (m_layers s ! 0)"
  shows "fst (forward E s input) = None \<and>
    length (m_layers (snd (forward E s input))) = length (m_layers s) \<and>
    (\<forall>k<length (m_layers s).
       m_layers (snd (forward E s input)) ! k =
       Layer_forward E (m_layers s ! k)
         (if k = 0 then input
          else Layer_output E (m_layers (snd (forward E s input)) ! (k - 1)))) \<and>
    calls (snd (forward E s input)) =
      calls s @ map (\<lambda>k. LayerForward k
         (if k = 0 then input
          else Layer_output E (m_layers (snd (forward E s input)) ! (k - 1))))
        [0..<length (m_layers s)] \<and>
    m_output (snd (forward E s input)) = m_output s \<and>
    m_callback (snd (forward E s input)) = m_callback s \<and>
    m_rng (snd (forward E s input)) = m_rng s"
proof -
  define n where "n = length (m_layers s)"
  define s0 where "s0 = Layer_forward_at E 0 input s"
  define s' where "s' = forward_loop E 1 n s0"
  have n: "0 < n" using assms(1) by (simp add: n_def)
  have eq: "forward E s input = (None, s')"
    using assms n by (simp add: forward_def Let_def num_layers_def s'_def s0_def n_def)
  have nth0: "m_layers s0 ! k = (if k = 0 then Layer_forward E (m_layers s ! 0) input else m_layers s ! k)" for k
    using n by (simp add: s0_def Layer_forward_at_def nth_list_update n_def)
  have len0: "n \<le> length (m_layers s0)"
    by (simp add: s0_def Layer_forward_at_def n_def)
  have L: "length (m_layers s') = length (m_layers s0) \<and>
    (\<forall>k. k < 1 \<or> n \<le> k \<longrightarrow> m_layers s' ! k = m_layers s0 ! k) \<and>
    (\<forall>k. 1 \<le> k \<and> k < n \<longrightarrow>
       m_layers s' ! k = Layer_forward E (m_layers s0 ! k) (Layer_output E (m_layers s' ! (k - 1)))) \<and>
    calls s' = calls s0 @ map (\<lambda>k. LayerForward k (Layer_output E (m_layers s' ! (k - 1)))) [1..<n] \<and>
    m_output s' = m_output s0 \<and> m_callback s' = m_callback s0 \<and> m_rng s' = m_rng s0"
    unfolding s'_def using forward_loop_run [OF len0, of 1 E] by simp
  have "length (m_layers s') = n"
    using L by (simp add: s0_def Layer_forward_at_def n_def)
  moreover have "\<forall>k<n. m_layers s' ! k =
       Layer_forward E (m_layers s ! k)
         (if k = 0 then input else Layer_output E (m_layers s' ! (k - 1)))"
    using L by (auto simp: nth0)
  moreover have "map (\<lambda>k. LayerForward k (Layer_output E (m_layers s' ! (k - 1)))) [1..<n] =
     map (\<lambda>k. LayerForward k (if k = 0 then input else Layer_output E (m_layers s' ! (k - 1)))) [1..<n]"
    by simp
  then have "calls s' = calls s @ map (\<lambda>k. LayerForward k
         (if k = 0 then input else Layer_output E (m_layers s' ! (k - 1)))) [0..<n]"
    using L n by (simp add: s0_def Layer_forward_at_def upt_conv_Cons [of 0])
  moreover have "m_output s' = m_output s \<and> m_callback s' = m_callback s \<and> m_rng s' = m_rng s"
    using L by (simp add: s0_def Layer_forward_at_def)
  ultimately show ?thesis
    unfolding eq n_def [symmetric] by simp
qed

text \<open>
  Claim C2.  On a network without layers \<^verbatim>\<open>forward\<close> returns without an error and changes
  nothing.  On a network with layers it throws the shape error, before any layer is
  called, when the row count of the input differs from the input size of layer 0.
  Otherwise it returns normally after calling \<^verbatim>\<open>forward\<close> of the layers \<open>0, ..., L - 1\<close> in
  this order, once each: layer 0 on the input, and layer \<open>k > 0\<close> on the output that layer
  \<open>k - 1\<close> holds after its own call in this pass.  (Layer \<open>k - 1\<close> is not touched again, so
  this is its output in the final state.  The argument is that output by construction;
  whether its value differs from the input depends on the layer.)
\<close>

theorem forward_chain:
  "(num_layers s = 0 \<longrightarrow> forward E s input = (None, s)) \<and>
   (num_layers s \<noteq> 0 \<and> Matrix_rows E input \<noteq> Layer_in_size E (m_layers s ! 0) \<longrightarrow>
      forward E s input = (Some ShapeMismatch, s)) \<and>
   (num_layers s \<noteq> 0 \<and> Matrix_rows E input = Layer_in_size E (m_layers s ! 0) \<longrightarrow>
      fst (forward E s input) = None \<and>
      calls (snd (forward E s input)) =
        calls s @ map (\<lambda>k. LayerForward k
           (if k = 0 then input
            else Layer_output E (m_layers (snd (forward E s input)) ! (k - 1))))
          [0..<num_layers s] \<and>
      length (m_layers (snd (forward E s input))) = num_layers s \<and>
      (\<forall>k<num_layers s.
         m_layers (snd (forward E s input)) ! k =
         Layer_forward E (m_layers s ! k)
           (if k = 0 then input
            else Layer_output E (m_layers (snd (forward E s input)) ! (k - 1)))))"
proof (intro conjI impI)
  assume "num_layers s = 0"
  then show "forward E s input = (None, s)"
    by (simp add: forward_def Let_def)
next
  assume "num_layers s \<noteq> 0 \<and> Matrix_rows E input \<noteq> Layer_in_size E (m_layers s ! 0)"
  then show "forward E s input = (Some ShapeMismatch, s)"
    by (simp add: forward_def Let_def)
next
  assume a: "num_layers s \<noteq> 0 \<and> Matrix_rows E input = Layer_in_size E (m_layers s ! 0)"
  then have ne: "m_layers s \<noteq> []" and rows: "Matrix_rows E input = Layer_in_size E (m_layers s ! 0)"
    by (auto simp: num_layers_def)
  note r = forward_run [OF ne rows]
  show "fst (forward E s input) = None" using r by simp
  show "calls (snd (forward E s input)) =
        calls s @ map (\<lambda>k. LayerForward k
           (if k = 0 then input
            else Layer_output E (m_layers (snd (forward E s input)) ! (k - 1))))
          [0..<num_layers s]"
    using r by (simp add: num_layers_def)
  show "length (m_layers (snd (forward E s input))) = num_layers s"
    using r by (simp add: num_layers_def)
  show "\<forall>k<num_layers s.
         m_layers (snd (forward E s input)) ! k =
         Layer_forward E (m_layers s ! k)
           (if k = 0 then input
            else Layer_output E (m_layers (snd (forward E s input)) ! (k - 1)))"
    using r by (simp add: num_layers_def)
qed

theorem forward_chain_witness:
  "num_layers (Network_default toy) = 0 \<and>
   forward toy (Network_default toy) [[1], [2], [3]] = (None, Network_default toy) \<and>
   num_layers toy_network \<noteq> 0 \<and>
   Matrix_rows toy [[1, 1], [2, 2]] \<noteq> Layer_in_size toy (m_layers toy_network ! 0) \<and>
   forward toy toy_network [[1, 1], [2, 2]] = (Some ShapeMismatch, toy_network) \<and>
   Matrix_rows toy [[1], [2], [3]] = Layer_in_size toy (m_layers toy_network ! 0) \<and>
   fst (forward toy toy_network [[1], [2], [3]]) = None \<and>
   calls (snd (forward toy toy_network [[1], [2], [3]])) =
     [LayerForward 0 [[1], [2], [3]], LayerForward 1 [[8, 8], [9, 9], [10, 10]]] \<and>
   map t_output (m_layers (snd (forward toy toy_network [[1], [2], [3]]))) =
     [[[8, 8], [9, 9], [10, 10]], [[21], [23], [25]]]"
  using forward_chain [of "Network_default toy" toy "[[1], [2], [3]]"]
    forward_chain [of toy_network toy "[[1, 1], [2, 2]]"]
    forward_chain [of toy_network toy "[[1], [2], [3]]"]
  by (simp add: toy_def toy_layer1_def toy_layer2_def toy_callback_def toy_network_def
      Network_default_def addLayer_def setOutput_def setCallback_def
      num_layers_def forward_def forward_loop.simps Layer_forward_at_def numeral_2_eq_2)

section \<open>Back-propagation\<close>

text \<open>
  Claim C9.  On a network without layers \<^verbatim>\<open>backprop\<close> returns at once: the network and the
  log of calls are unchanged, so neither \<^verbatim>\<open>check_target_data\<close> nor \<^verbatim>\<open>evaluate\<close> of the
  output head is called.  This holds whatever the output handle is; on the network built
  by the default constructor the handle is null and is not dereferenced.  (With a layer
  and a null handle the first use of the handle is reached.)
\<close>

theorem backprop_empty_network:
  "(num_layers s = 0 \<longrightarrow> backprop E s input target = (None, s)) \<and>
   num_layers (Network_default E) = 0 \<and> m_output (Network_default E) = None \<and>
   backprop E (Network_default E) input target = (None, Network_default E) \<and>
   (num_layers s \<noteq> 0 \<and> m_output s = None \<longrightarrow>
      backprop E s input target = (Some NullPointer, s))"
proof (intro conjI impI)
  assume "num_layers s = 0"
  then show "backprop E s input target = (None, s)"
    by (simp add: backprop_def Let_def)
next
  show "num_layers (Network_default E) = 0"
    by (simp add: num_layers_def Network_default_def)
  then show "backprop E (Network_default E) input target = (None, Network_default E)"
    by (simp add: backprop_def Let_def)
  show "m_output (Network_default E) = None"
    by (simp add: Network_default_def)
next
  assume "num_layers s \<noteq> 0 \<and> m_output s = None"
  then show "backprop E s input target = (Some NullPointer, s)"
    by (simp add: backprop_def Let_def)
qed

theorem backprop_empty_network_witness:
  "num_layers (Network_default toy) = 0 \<and>
   backprop toy (Network_default toy) [[1]] [[0]] = (None, Network_default toy) \<and>
   num_layers (setOutput [] (Network_default toy)) = 0 \<and>
   backprop toy (setOutput [] (Network_default toy)) [[1]] [[0]] =
     (None, setOutput [] (Network_default toy)) \<and>
   num_layers (addLayer toy_layer1 (Network_default toy)) \<noteq> 0 \<and>
   m_output (addLayer toy_layer1 (Network_default toy)) = None \<and>
   backprop toy (addLayer toy_layer1 (Network_default toy)) [[1]] [[0]] =
     (Some NullPointer, addLayer toy_layer1 (Network_default toy))"
  using backprop_empty_network [of "Network_default toy" toy "[[1]]" "[[0]]"]
    backprop_empty_network [of "setOutput [] (Network_default toy)" toy "[[1]]" "[[0]]"]
    backprop_empty_network [of "addLayer toy_layer1 (Network_default toy)" toy "[[1]]" "[[0]]"]
  by (simp add: num_layers_def Network_default_def setOutput_def addLayer_def)

lemma backprop_loop_run:
  assumes "i + 1 < length (m_layers s)"
  shows "length (m_layers (backprop_loop E i s)) = length (m_layers s) \<and>
    (\<forall>k. k = 0 \<or> i < k \<longrightarrow> m_layers (backprop_loop E i s) ! k = m_layers s ! k) \<and>
    (\<forall>k. 0 < k \<and> k \<le> i \<longrightarrow>
       m_layers (backprop_loop E i s) ! k =
       Layer_backprop E (m_layers s ! k) (Layer_output E (m_layers s ! (k - 1)))
         (Layer_backprop_data E (m_layers (backprop_loop E i s) ! (k + 1)))) \<and>
    calls (backprop_loop E i s) =
      calls s @ map (\<lambda>k. LayerBackprop k (Layer_output E (m_layers s ! (k - 1)))
         (Layer_backprop_data E (m_layers (backprop_loop E i s) ! (k + 1)))) (rev [1..<Suc i]) \<and>
    m_output (backprop_loop E i s) = m_output s \<and>
    m_callback (backprop_loop E i s) = m_callback s \<and>
    m_rng (backprop_loop E i s) = m_rng s"
  using assms
proof (induction E i s rule: backprop_loop.induct)
  case (1 E i s)
  show ?case
  proof (cases "i > 0")
    case False
    then have "backprop_loop E i s = s"
      by (subst backprop_loop.simps) simp
    with False show ?thesis by auto
  next
    case True
    define s1 where "s1 = Layer_backprop_at E i (Layer_output E (m_layers s ! (i - 1)))
             (Layer_backprop_data E (m_layers s ! (i + 1))) s"
    define s' where "s' = backprop_loop E (i - 1) s1"
    have step: "backprop_loop E i s = s'"
      using True by (subst backprop_loop.simps) (simp add: s1_def s'_def)
    have len: "i - 1 + 1 < length (m_layers s1)"
      using "1.prems" by (simp add: s1_def Layer_backprop_at_def)
    have nth1: "m_layers s1 ! k =
        (if k = i then Layer_backprop E (m_layers s ! i) (Layer_output E (m_layers s ! (i - 1)))
             (Layer_backprop_data E (m_layers s ! (i + 1)))
         else m_layers s ! k)" for k
      using True "1.prems" by (simp add: s1_def Layer_backprop_at_def nth_list_update)
    have IH: "length (m_layers s') = length (m_layers s1) \<and>
      (\<forall>k. k = 0 \<or> i - 1 < k \<longrightarrow> m_layers s' ! k = m_layers s1 ! k) \<and>
      (\<forall>k. 0 < k \<and> k \<le> i - 1 \<longrightarrow>
         m_layers s' ! k =
         Layer_backprop E (m_layers s1 ! k) (Layer_output E (m_layers s1 ! (k - 1)))
           (Layer_backprop_data E (m_layers s' ! (k + 1)))) \<and>
      calls s' = calls s1 @ map (\<lambda>k. LayerBackprop k (Layer_output E (m_layers s1 ! (k - 1)))
           (Layer_backprop_data E (m_layers s' ! (k + 1)))) (rev [1..<Suc (i - 1)]) \<and>
      m_output s' = m_output s1 \<and> m_callback s' = m_callback s1 \<and> m_rng s' = m_rng s1"
      using "1.IH" True len by (simp add: s'_def s1_def)
    have next_layer: "m_layers s' ! (i + 1) = m_layers s ! (i + 1)"
      using IH by (simp add: nth1)
    have this_layer: "m_layers s' ! i = m_layers s1 ! i"
      using IH True by simp
    have "length (m_layers s') = length (m_layers s)"
      using IH by (simp add: s1_def Layer_backprop_at_def)
    moreover have "\<forall>k. k = 0 \<or> i < k \<longrightarrow> m_layers s' ! k = m_layers s ! k"
      using IH True by (auto simp: nth1)
    moreover have "\<forall>k. 0 < k \<and> k \<le> i \<longrightarrow>
       m_layers s' ! k =
       Layer_backprop E (m_layers s ! k) (Layer_output E (m_layers s ! (k - 1)))
         (Layer_backprop_data E (m_layers s' ! (k + 1)))"
    proof (intro allI impI)
      fix k assume k: "0 < k \<and> k \<le> i"
      show "m_layers s' ! k =
       Layer_backprop E (m_layers s ! k) (Layer_output E (m_layers s ! (k - 1)))
         (Layer_backprop_data E (m_layers s' ! (k + 1)))"
      proof (cases "k = i")
        case True
        with this_layer next_layer show ?thesis by (simp add: nth1)
      next
        case False
        with k have "0 < k \<and> k \<le> i - 1" by arith
        with IH have "m_layers s' ! k =
         Layer_backprop E (m_layers s1 ! k) (Layer_output E (m_layers s1 ! (k - 1)))
           (Layer_backprop_data E (m_layers s' ! (k + 1)))" by blast
        moreover have "k \<noteq> i" and "k - 1 \<noteq> i" using False k by arith+
        ultimately show ?thesis by (simp add: nth1)
      qed
    qed
    moreover have "calls s' =
      calls s @ map (\<lambda>k. LayerBackprop k (Layer_output E (m_layers s ! (k - 1)))
         (Layer_backprop_data E (m_layers s' ! (k + 1)))) (rev [1..<Suc i])"
    proof -
      have "map (\<lambda>k. LayerBackprop k (Layer_output E (m_layers s1 ! (k - 1)))
           (Layer_backprop_data E (m_layers s' ! (k + 1)))) (rev [1..<Suc (i - 1)]) =
         map (\<lambda>k. LayerBackprop k (Layer_output E (m_layers s ! (k - 1)))
           (Layer_backprop_data E (m_layers s' ! (k + 1)))) (rev [1..<Suc (i - 1)])"
        by (rule map_cong) (auto simp: nth1)
      moreover have "rev [1..<Suc i] = i # rev [1..<Suc (i - 1)]"
        using True by (cases i) simp_all
      moreover have "calls s1 = calls s @ [LayerBackprop i (Layer_output E (m_layers s ! (i - 1)))
             (Layer_backprop_data E (m_layers s' ! (i + 1)))]"
        using next_layer by (simp add: s1_def Layer_backprop_at_def)
      ultimately show ?thesis using IH by simp
    qed
    moreover have "m_output s' = m_output s \<and> m_callback s' = m_callback s \<and> m_rng s' = m_rng s"
      using IH by (simp add: s1_def Layer_backprop_at_def)
    ultimately show ?thesis
      unfolding step by simp
  qed
qed

lemma rev_upt_ends:
  assumes "2 \<le> n"
  shows "rev [0..<n] = (n - 1) # rev [1..<Suc (n - 2)] @ [0]"
proof -
  from assms obtain m where n: "n = Suc (Suc m)"
    by (metis Suc_le_D numeral_2_eq_2 Suc_le_mono)
  have "[0..<n] = 0 # [1..<Suc m] @ [Suc m]"
    unfolding n by (simp add: upt_conv_Cons)
  then show ?thesis by (simp add: n)
qed


lemma backprop_run:
  assumes "m_layers s \<noteq> []" and "m_output s = Some out"
    and "Output_check_target_data E out target"
  shows "fst (backprop E s input target) = None \<and>
    length (m_layers (snd (backprop E s input target))) = length (m_layers s) \<and>
    (\<forall>k<length (m_layers s).
       m_layers (snd (backprop E s input target)) ! k =
       Layer_backprop E (m_layers s ! k)
         (if k = 0 then input else Layer_output E (m_layers s ! (k - 1)))
         (if Suc k = length (m_layers s)
          then Output_backprop_data E
                 (Output_evaluate E out
                    (Layer_output E (m_layers s ! (length (m_layers s) - 1))) target)
          else Layer_backprop_data E (m_layers (snd (backprop E s input target)) ! (k + 1)))) \<and>
    calls (snd (backprop E s input target)) =
      calls s @
      [OutputCheckTargetData target,
       OutputEvaluate (Layer_output E (m_layers s ! (length (m_layers s) - 1))) target] @
      map (\<lambda>k. LayerBackprop k
         (if k = 0 then input else Layer_output E (m_layers s ! (k - 1)))
         (if Suc k = length (m_layers s)
          then Output_backprop_data E
                 (Output_evaluate E out
                    (Layer_output E (m_layers s ! (length (m_layers s) - 1))) target)
          else Layer_backprop_data E (m_layers (snd (backprop E s input target)) ! (k + 1))))
        (rev [0..<length (m_layers s)]) \<and>
    m_output (snd (backprop E s input target)) =
      Some (Output_evaluate E out
              (Layer_output E (m_layers s ! (length (m_layers s) - 1))) target) \<and>
    m_callback (snd (backprop E s input target)) = m_callback s \<and>
    m_rng (snd (backprop E s input target)) = m_rng s"
proof -
  define n where "n = length (m_layers s)"
  define last_output where "last_output = Layer_output E (m_layers s ! (n - 1))"
  define out' where "out' = Output_evaluate E out last_output target"
  define s2 where "s2 = s\<lparr>m_output := Some out',
     calls := calls s @ [OutputCheckTargetData target, OutputEvaluate last_output target]\<rparr>"
  have n: "0 < n" using assms(1) by (simp add: n_def)
  have layers2: "m_layers s2 = m_layers s" by (simp add: s2_def)
  show ?thesis
  proof (cases "n = 1")
    case True
    have eq: "backprop E s input target =
        (None, Layer_backprop_at E 0 input (Output_backprop_data E out') s2)"
      using assms True
      by (simp add: backprop_def Let_def num_layers_def n_def [symmetric] s2_def out'_def
          last_output_def)
    show ?thesis
      unfolding eq n_def [symmetric] last_output_def [symmetric] out'_def [symmetric]
      using True by (simp add: Layer_backprop_at_def s2_def n_def)
  next
    case False
    with n have n2: "2 \<le> n" by simp
    define s3 where "s3 = Layer_backprop_at E (n - 1)
        (Layer_output E (m_layers s2 ! (n - 2))) (Output_backprop_data E out') s2"
    define s4 where "s4 = backprop_loop E (n - 2) s3"
    define s5 where "s5 = Layer_backprop_at E 0 input (Layer_backprop_data E (m_layers s4 ! 1)) s4"
    have eq: "backprop E s input target = (None, s5)"
      using assms False n
      by (simp add: backprop_def Let_def num_layers_def n_def [symmetric] s2_def out'_def
          last_output_def s3_def s4_def s5_def)
    have nth3: "m_layers s3 ! k =
        (if k = n - 1
         then Layer_backprop E (m_layers s ! (n - 1)) (Layer_output E (m_layers s ! (n - 2)))
                (Output_backprop_data E out')
         else m_layers s ! k)" for k
      using n by (simp add: s3_def Layer_backprop_at_def layers2 nth_list_update n_def)
    have len3: "length (m_layers s3) = n"
      by (simp add: s3_def Layer_backprop_at_def layers2 n_def)
    have "n - 2 + 1 < length (m_layers s3)"
      using n2 len3 by simp
    from backprop_loop_run [OF this, of E]
    have L: "length (m_layers s4) = n \<and>
      (\<forall>k. k = 0 \<or> n - 2 < k \<longrightarrow> m_layers s4 ! k = m_layers s3 ! k) \<and>
      (\<forall>k. 0 < k \<and> k \<le> n - 2 \<longrightarrow>
         m_layers s4 ! k =
         Layer_backprop E (m_layers s3 ! k) (Layer_output E (m_layers s3 ! (k - 1)))
           (Layer_backprop_data E (m_layers s4 ! (k + 1)))) \<and>
      calls s4 = calls s3 @ map (\<lambda>k. LayerBackprop k (Layer_output E (m_layers s3 ! (k - 1)))
           (Layer_backprop_data E (m_layers s4 ! (k + 1)))) (rev [1..<Suc (n - 2)]) \<and>
      m_output s4 = m_output s3 \<and> m_callback s4 = m_callback s3 \<and> m_rng s4 = m_rng s3"
      by (simp add: s4_def len3)
    have nth5: "m_layers s5 ! k =
        (if k = 0 then Layer_backprop E (m_layers s4 ! 0) input (Layer_backprop_data E (m_layers s4 ! 1))
         else m_layers s4 ! k)" for k
      using n L by (simp add: s5_def Layer_backprop_at_def nth_list_update)
    have len5: "length (m_layers s5) = n"
      using L by (simp add: s5_def Layer_backprop_at_def)
    have succ: "m_layers s5 ! (k + 1) = m_layers s4 ! (k + 1)" for k
      by (simp add: nth5)
    have first: "m_layers s4 ! 0 = m_layers s ! 0"
      using L n2 by (simp add: nth3)
    have last: "m_layers s4 ! (n - 1) = m_layers s3 ! (n - 1)"
      using L n2 by simp
    have layer: "m_layers s5 ! k =
       Layer_backprop E (m_layers s ! k)
         (if k = 0 then input else Layer_output E (m_layers s ! (k - 1)))
         (if Suc k = n then Output_backprop_data E out'
          else Layer_backprop_data E (m_layers s5 ! (k + 1)))" if kn: "k < n" for k
    proof -
      have "k = 0 \<or> k = n - 1 \<or> (0 < k \<and> k \<le> n - 2)"
        using kn by arith
      then consider "k = 0" | "k = n - 1" | "0 < k \<and> k \<le> n - 2"
        by blast
      then show ?thesis
      proof cases
        case 1
        with n2 first show ?thesis by (simp add: nth5)
      next
        case 2
        with n2 last have "m_layers s5 ! k = m_layers s3 ! (n - 1)"
          by (simp add: nth5)
        moreover have "n - 1 - 1 = n - 2" by simp
        ultimately show ?thesis using 2 n2 by (simp add: nth3)
      next
        case 3
        with L have "m_layers s4 ! k =
         Layer_backprop E (m_layers s3 ! k) (Layer_output E (m_layers s3 ! (k - 1)))
           (Layer_backprop_data E (m_layers s4 ! (k + 1)))" by blast
        moreover have "k \<noteq> n - 1" and "k - 1 \<noteq> n - 1" and "Suc k \<noteq> n" and "k \<noteq> 0"
          using 3 n2 by arith+
        ultimately show ?thesis by (simp add: nth5 nth3)
      qed
    qed
    have calls3: "calls s3 = calls s @
       [OutputCheckTargetData target, OutputEvaluate last_output target,
        LayerBackprop (n - 1) (Layer_output E (m_layers s ! (n - 2))) (Output_backprop_data E out')]"
      by (simp add: s3_def Layer_backprop_at_def s2_def)
    have mid: "map (\<lambda>k. LayerBackprop k (Layer_output E (m_layers s3 ! (k - 1)))
           (Layer_backprop_data E (m_layers s4 ! (k + 1)))) (rev [1..<Suc (n - 2)]) =
       map (\<lambda>k. LayerBackprop k
         (if k = 0 then input else Layer_output E (m_layers s ! (k - 1)))
         (if Suc k = n then Output_backprop_data E out'
          else Layer_backprop_data E (m_layers s5 ! (k + 1)))) (rev [1..<Suc (n - 2)])"
    proof (rule map_cong [OF refl])
      fix k assume "k \<in> set (rev [1..<Suc (n - 2)])"
      then have "k \<noteq> 0" and "k - 1 \<noteq> n - 1" and "Suc k \<noteq> n"
        using n2 by auto
      then show "LayerBackprop k (Layer_output E (m_layers s3 ! (k - 1)))
           (Layer_backprop_data E (m_layers s4 ! (k + 1))) =
         LayerBackprop k
         (if k = 0 then input else Layer_output E (m_layers s ! (k - 1)))
         (if Suc k = n then Output_backprop_data E out'
          else Layer_backprop_data E (m_layers s5 ! (k + 1)))"
        by (simp add: nth3 nth5)
    qed
    have "n - 1 \<noteq> 0" and "Suc (n - 1) = n" and "n - 1 - 1 = n - 2" and "Suc 0 \<noteq> n"
      using n2 by simp_all
    then have calls5: "calls s5 = calls s @
      [OutputCheckTargetData target, OutputEvaluate last_output target] @
      map (\<lambda>k. LayerBackprop k
         (if k = 0 then input else Layer_output E (m_layers s ! (k - 1)))
         (if Suc k = n then Output_backprop_data E out'
          else Layer_backprop_data E (m_layers s5 ! (k + 1)))) (rev [0..<n])"
      using L calls3 mid
      by (simp add: rev_upt_ends [OF n2] s5_def Layer_backprop_at_def nth5)
    have frame: "m_output s5 = Some out' \<and> m_callback s5 = m_callback s \<and> m_rng s5 = m_rng s"
      using L by (simp add: s5_def s3_def s2_def Layer_backprop_at_def)
    show ?thesis
      unfolding eq n_def [symmetric] last_output_def [symmetric] out'_def [symmetric]
      using layer calls5 frame len5 by simp
  qed
qed


text \<open>
  Claim C1.  Let the network have \<open>L \<ge> 1\<close> layers and an output head that accepts the
  target.  Then \<^verbatim>\<open>backprop\<close> returns normally, and after the two calls on the output head
  (which evaluates the output kept by the last layer) it calls \<^verbatim>\<open>backprop\<close> of the layers
  \<open>L - 1, ..., 0\<close> in this order, once each.  Layer \<open>k\<close> receives as first argument the
  input if \<open>k = 0\<close> and otherwise the output kept by layer \<open>k - 1\<close>, and as second argument
  the gradient of the output head if \<open>k = L - 1\<close> and otherwise the gradient that layer
  \<open>k + 1\<close> holds after its own call in this pass.  For \<open>L = 1\<close> this is the single call on
  the input and the output head's gradient.  The state \<open>s\<close> is arbitrary, so this holds in
  particular for the state that \<^verbatim>\<open>forward\<close> on the same input has just left.
\<close>

theorem backprop_reverse_chain:
  assumes "1 \<le> num_layers s" and "m_output s = Some out"
    and "Output_check_target_data E out target"
  shows "fst (backprop E s input target) = None \<and>
    calls (snd (backprop E s input target)) =
      calls s @
      [OutputCheckTargetData target,
       OutputEvaluate (Layer_output E (m_layers s ! (num_layers s - 1))) target] @
      map (\<lambda>k. LayerBackprop k
         (if k = 0 then input else Layer_output E (m_layers s ! (k - 1)))
         (if Suc k = num_layers s
          then Output_backprop_data E
                 (Output_evaluate E out
                    (Layer_output E (m_layers s ! (num_layers s - 1))) target)
          else Layer_backprop_data E (m_layers (snd (backprop E s input target)) ! (k + 1))))
        (rev [0..<num_layers s]) \<and>
    length (m_layers (snd (backprop E s input target))) = num_layers s \<and>
    (\<forall>k<num_layers s.
       m_layers (snd (backprop E s input target)) ! k =
       Layer_backprop E (m_layers s ! k)
         (if k = 0 then input else Layer_output E (m_layers s ! (k - 1)))
         (if Suc k = num_layers s
          then Output_backprop_data E
                 (Output_evaluate E out
                    (Layer_output E (m_layers s ! (num_layers s - 1))) target)
          else Layer_backprop_data E (m_layers (snd (backprop E s input target)) ! (k + 1))))"
proof -
  from assms(1) have ne: "m_layers s \<noteq> []"
    by (auto simp: num_layers_def)
  from backprop_run [OF ne assms(2) assms(3), of input] show ?thesis
    unfolding num_layers_def by simp
qed

theorem backprop_reverse_chain_witness:
  "1 \<le> num_layers (snd (forward toy toy_network [[1], [2], [3]])) \<and>
   m_output (snd (forward toy toy_network [[1], [2], [3]])) = Some [] \<and>
   Output_check_target_data toy [] [[0], [1], [0]] \<and>
   backprop toy (snd (forward toy toy_network [[1], [2], [3]])) [[1], [2], [3]] [[0], [1], [0]] =
     (None,
      toy_network
       \<lparr>m_output := Some [[21], [22], [25]],
        m_layers :=
          [toy_layer1\<lparr>t_output := [[8, 8], [9, 9], [10, 10]], t_grad := [[42], [44], [50]]\<rparr>,
           toy_layer2\<lparr>t_output := [[21], [23], [25]], t_grad := [[21, 21], [22, 22], [25, 25]]\<rparr>],
        calls :=
          [LayerForward 0 [[1], [2], [3]],
           LayerForward 1 [[8, 8], [9, 9], [10, 10]],
           OutputCheckTargetData [[0], [1], [0]],
           OutputEvaluate [[21], [23], [25]] [[0], [1], [0]],
           LayerBackprop 1 [[8, 8], [9, 9], [10, 10]] [[21], [22], [25]],
           LayerBackprop 0 [[1], [2], [3]] [[21, 21], [22, 22], [25, 25]]]\<rparr>) \<and>
   1 \<le> num_layers (setOutput [] (addLayer toy_layer1 (Network_default toy))) \<and>
   calls (snd (backprop toy (setOutput [] (addLayer toy_layer1 (Network_default toy)))
                 [[1], [2]] [[0], [1]])) =
     [OutputCheckTargetData [[0], [1]], OutputEvaluate [] [[0], [1]], LayerBackprop 0 [[1], [2]] []]"
  using backprop_reverse_chain
          [of "snd (forward toy toy_network [[1], [2], [3]])" "[]" toy "[[0], [1], [0]]" "[[1], [2], [3]]"]
    backprop_reverse_chain
          [of "setOutput [] (addLayer toy_layer1 (Network_default toy))" "[]" toy "[[0], [1]]" "[[1], [2]]"]
  by (simp add: toy_def toy_layer1_def toy_layer2_def toy_callback_def toy_network_def
      Network_default_def addLayer_def setOutput_def setCallback_def
      num_layers_def forward_def forward_loop.simps Layer_forward_at_def numeral_2_eq_2
      backprop_def backprop_loop.simps Layer_backprop_at_def Let_def)

section \<open>Parameters\<close>

lemma get_parameters_loop_eq:
  "get_parameters_loop E i nlayer s res =
     res @ map (\<lambda>k. Layer_get_parameters E (m_layers s ! k)) [i..<nlayer]"
proof (induction E i nlayer s res rule: get_parameters_loop.induct)
  case (1 E i nlayer s res)
  show ?case
  proof (cases "i < nlayer")
    case True
    with "1.IH" show ?thesis
      by (subst get_parameters_loop.simps) (simp add: upt_conv_Cons)
  next
    case False
    then show ?thesis
      by (subst get_parameters_loop.simps) simp
  qed
qed

lemma get_parameters_map:
  "get_parameters E s = map (Layer_get_parameters E) (m_layers s)"
proof -
  have "map (\<lambda>k. Layer_get_parameters E (m_layers s ! k)) [0..<length (m_layers s)] =
        map (Layer_get_parameters E) (m_layers s)"
    by (rule nth_equalityI) simp_all
  then show ?thesis
    by (simp add: get_parameters_def num_layers_def get_parameters_loop_eq Let_def)
qed

lemma set_parameters_loop_accept:
  assumes "nlayer \<le> length (m_layers s)"
    and "\<forall>k. i \<le> k \<and> k < nlayer \<longrightarrow> Layer_set_parameters E (m_layers s ! k) (param ! k) \<noteq> None"
  shows "fst (set_parameters_loop E i nlayer param s) = None \<and>
    length (m_layers (snd (set_parameters_loop E i nlayer param s))) = length (m_layers s) \<and>
    (\<forall>k. i \<le> k \<and> k < nlayer \<longrightarrow>
       Layer_set_parameters E (m_layers s ! k) (param ! k) =
       Some (m_layers (snd (set_parameters_loop E i nlayer param s)) ! k)) \<and>
    (\<forall>k. k < i \<or> nlayer \<le> k \<longrightarrow>
       m_layers (snd (set_parameters_loop E i nlayer param s)) ! k = m_layers s ! k) \<and>
    calls (snd (set_parameters_loop E i nlayer param s)) =
      calls s @ map (\<lambda>k. LayerSetParameters k (param ! k)) [i..<nlayer] \<and>
    m_output (snd (set_parameters_loop E i nlayer param s)) = m_output s \<and>
    m_callback (snd (set_parameters_loop E i nlayer param s)) = m_callback s \<and>
    m_rng (snd (set_parameters_loop E i nlayer param s)) = m_rng s"
  using assms
proof (induction E i nlayer param s rule: set_parameters_loop.induct)
  case (1 E i nlayer param s)
  show ?case
  proof (cases "i < nlayer")
    case False
    then have "set_parameters_loop E i nlayer param s = (None, s)"
      by (subst set_parameters_loop.simps) simp
    with False show ?thesis by auto
  next
    case True
    define s1 where "s1 = s\<lparr>calls := calls s @ [LayerSetParameters i (param ! i)]\<rparr>"
    from "1.prems" True obtain layer' where
      acc: "Layer_set_parameters E (m_layers s ! i) (param ! i) = Some layer'"
      by auto
    define s2 where "s2 = s1\<lparr>m_layers := (m_layers s1)[i := layer']\<rparr>"
    have step: "set_parameters_loop E i nlayer param s = set_parameters_loop E (i + 1) nlayer param s2"
      using True acc by (subst set_parameters_loop.simps) (simp add: s1_def s2_def Let_def)
    have len: "nlayer \<le> length (m_layers s2)"
      using "1.prems" by (simp add: s1_def s2_def)
    have nth2: "m_layers s2 ! k = (if k = i then layer' else m_layers s ! k)" for k
      using True "1.prems" by (simp add: s1_def s2_def nth_list_update)
    have acc2: "\<forall>k. i + 1 \<le> k \<and> k < nlayer \<longrightarrow>
        Layer_set_parameters E (m_layers s2 ! k) (param ! k) \<noteq> None"
      using "1.prems" by (simp add: nth2)
    have IH: "fst (set_parameters_loop E (i + 1) nlayer param s2) = None \<and>
    length (m_layers (snd (set_parameters_loop E (i + 1) nlayer param s2))) = length (m_layers s2) \<and>
    (\<forall>k. i + 1 \<le> k \<and> k < nlayer \<longrightarrow>
       Layer_set_parameters E (m_layers s2 ! k) (param ! k) =
       Some (m_layers (snd (set_parameters_loop E (i + 1) nlayer param s2)) ! k)) \<and>
    (\<forall>k. k < i + 1 \<or> nlayer \<le> k \<longrightarrow>
       m_layers (snd (set_parameters_loop E (i + 1) nlayer param s2)) ! k = m_layers s2 ! k) \<and>
    calls (snd (set_parameters_loop E (i + 1) nlayer param s2)) =
      calls s2 @ map (\<lambda>k. LayerSetParameters k (param ! k)) [i + 1..<nlayer] \<and>
    m_output (snd (set_parameters_loop E (i + 1) nlayer param s2)) = m_output s2 \<and>
    m_callback (snd (set_parameters_loop E (i + 1) nlayer param s2)) = m_callback s2 \<and>
    m_rng (snd (set_parameters_loop E (i + 1) nlayer param s2)) = m_rng s2"
      using "1.IH" [of s1 layer'] True acc len acc2 by (simp add: s1_def s2_def)
    have "\<forall>k. i \<le> k \<and> k < nlayer \<longrightarrow>
       Layer_set_parameters E (m_layers s ! k) (param ! k) =
       Some (m_layers (snd (set_parameters_loop E (i + 1) nlayer param s2)) ! k)"
    proof (intro allI impI)
      fix k assume k: "i \<le> k \<and> k < nlayer"
      show "Layer_set_parameters E (m_layers s ! k) (param ! k) =
       Some (m_layers (snd (set_parameters_loop E (i + 1) nlayer param s2)) ! k)"
      proof (cases "k = i")
        case True
        with IH have "m_layers (snd (set_parameters_loop E (i + 1) nlayer param s2)) ! k = m_layers s2 ! k"
          by simp
        with True acc show ?thesis by (simp add: nth2)
      next
        case False
        with k IH have "Layer_set_parameters E (m_layers s2 ! k) (param ! k) =
          Some (m_layers (snd (set_parameters_loop E (i + 1) nlayer param s2)) ! k)" by simp
        with False show ?thesis by (simp add: nth2)
      qed
    qed
    moreover have "\<forall>k. k < i \<or> nlayer \<le> k \<longrightarrow>
       m_layers (snd (set_parameters_loop E (i + 1) nlayer param s2)) ! k = m_layers s ! k"
      using IH True by (auto simp: nth2)
    moreover have "calls (snd (set_parameters_loop E (i + 1) nlayer param s2)) =
      calls s @ map (\<lambda>k. LayerSetParameters k (param ! k)) [i..<nlayer]"
      using IH True by (simp add: s1_def s2_def upt_conv_Cons)
    ultimately show ?thesis
      unfolding step using IH by (simp add: s1_def s2_def)
  qed
qed


lemma set_parameters_loop_reject:
  assumes "nlayer \<le> length (m_layers s)" and "i \<le> j" and "j < nlayer"
    and "\<forall>k. i \<le> k \<and> k < j \<longrightarrow> Layer_set_parameters E (m_layers s ! k) (param ! k) \<noteq> None"
    and "Layer_set_parameters E (m_layers s ! j) (param ! j) = None"
  shows "fst (set_parameters_loop E i nlayer param s) = Some LayerParameterError \<and>
    length (m_layers (snd (set_parameters_loop E i nlayer param s))) = length (m_layers s) \<and>
    (\<forall>k. i \<le> k \<and> k < j \<longrightarrow>
       Layer_set_parameters E (m_layers s ! k) (param ! k) =
       Some (m_layers (snd (set_parameters_loop E i nlayer param s)) ! k)) \<and>
    (\<forall>k. k < i \<or> j \<le> k \<longrightarrow>
       m_layers (snd (set_parameters_loop E i nlayer param s)) ! k = m_layers s ! k) \<and>
    calls (snd (set_parameters_loop E i nlayer param s)) =
      calls s @ map (\<lambda>k. LayerSetParameters k (param ! k)) [i..<Suc j] \<and>
    m_output (snd (set_parameters_loop E i nlayer param s)) = m_output s \<and>
    m_callback (snd (set_parameters_loop E i nlayer param s)) = m_callback s \<and>
    m_rng (snd (set_parameters_loop E i nlayer param s)) = m_rng s"
  using assms
proof (induction E i nlayer param s rule: set_parameters_loop.induct)
  case (1 E i nlayer param s)
  have True: "i < nlayer" using "1.prems" by simp
  define s1 where "s1 = s\<lparr>calls := calls s @ [LayerSetParameters i (param ! i)]\<rparr>"
  show ?case
  proof (cases "i = j")
    case True
    with "1.prems" have "set_parameters_loop E i nlayer param s = (Some LayerParameterError, s1)"
      by (subst set_parameters_loop.simps) (simp add: s1_def Let_def)
    with True show ?thesis by (auto simp: s1_def)
  next
    case False
    with "1.prems" have ij: "i < j" by simp
    with "1.prems" obtain layer' where
      acc: "Layer_set_parameters E (m_layers s ! i) (param ! i) = Some layer'"
      by auto
    define s2 where "s2 = s1\<lparr>m_layers := (m_layers s1)[i := layer']\<rparr>"
    have step: "set_parameters_loop E i nlayer param s = set_parameters_loop E (i + 1) nlayer param s2"
      using True acc by (subst set_parameters_loop.simps) (simp add: s1_def s2_def Let_def)
    have len: "nlayer \<le> length (m_layers s2)"
      using "1.prems" by (simp add: s1_def s2_def)
    have nth2: "m_layers s2 ! k = (if k = i then layer' else m_layers s ! k)" for k
      using True "1.prems" by (simp add: s1_def s2_def nth_list_update)
    have acc2: "\<forall>k. i + 1 \<le> k \<and> k < j \<longrightarrow>
        Layer_set_parameters E (m_layers s2 ! k) (param ! k) \<noteq> None"
      using "1.prems" by (simp add: nth2)
    have rej2: "Layer_set_parameters E (m_layers s2 ! j) (param ! j) = None"
      using "1.prems" ij by (simp add: nth2)
    have IH: "fst (set_parameters_loop E (i + 1) nlayer param s2) = Some LayerParameterError \<and>
    length (m_layers (snd (set_parameters_loop E (i + 1) nlayer param s2))) = length (m_layers s2) \<and>
    (\<forall>k. i + 1 \<le> k \<and> k < j \<longrightarrow>
       Layer_set_parameters E (m_layers s2 ! k) (param ! k) =
       Some (m_layers (snd (set_parameters_loop E (i + 1) nlayer param s2)) ! k)) \<and>
    (\<forall>k. k < i + 1 \<or> j \<le> k \<longrightarrow>
       m_layers (snd (set_parameters_loop E (i + 1) nlayer param s2)) ! k = m_layers s2 ! k) \<and>
    calls (snd (set_parameters_loop E (i + 1) nlayer param s2)) =
      calls s2 @ map (\<lambda>k. LayerSetParameters k (param ! k)) [i + 1..<Suc j] \<and>
    m_output (snd (set_parameters_loop E (i + 1) nlayer param s2)) = m_output s2 \<and>
    m_callback (snd (set_parameters_loop E (i + 1) nlayer param s2)) = m_callback s2 \<and>
    m_rng (snd (set_parameters_loop E (i + 1) nlayer param s2)) = m_rng s2"
      using "1.IH" [of s1 layer'] True acc len acc2 rej2 ij "1.prems" by (simp add: s1_def s2_def)
    have "\<forall>k. i \<le> k \<and> k < j \<longrightarrow>
       Layer_set_parameters E (m_layers s ! k) (param ! k) =
       Some (m_layers (snd (set_parameters_loop E (i + 1) nlayer param s2)) ! k)"
    proof (intro allI impI)
      fix k assume k: "i \<le> k \<and> k < j"
      show "Layer_set_parameters E (m_layers s ! k) (param ! k) =
       Some (m_layers (snd (set_parameters_loop E (i + 1) nlayer param s2)) ! k)"
      proof (cases "k = i")
        case True
        with IH have "m_layers (snd (set_parameters_loop E (i + 1) nlayer param s2)) ! k = m_layers s2 ! k"
          by simp
        with True acc show ?thesis by (simp add: nth2)
      next
        case False
        with k IH have "Layer_set_parameters E (m_layers s2 ! k) (param ! k) =
          Some (m_layers (snd (set_parameters_loop E (i + 1) nlayer param s2)) ! k)" by simp
        with False show ?thesis by (simp add: nth2)
      qed
    qed
    moreover have "\<forall>k. k < i \<or> j \<le> k \<longrightarrow>
       m_layers (snd (set_parameters_loop E (i + 1) nlayer param s2)) ! k = m_layers s ! k"
      using IH ij by (auto simp: nth2)
    moreover have "calls (snd (set_parameters_loop E (i + 1) nlayer param s2)) =
      calls s @ map (\<lambda>k. LayerSetParameters k (param ! k)) [i..<Suc j]"
      using IH ij by (simp add: s1_def s2_def upt_conv_Cons)
    ultimately show ?thesis
      unfolding step using IH by (simp add: s1_def s2_def)
  qed
qed




lemma static_cast_int_wrap:
  "static_cast_int (n + 2 ^ 32) = static_cast_int n"
  by (simp add: static_cast_int_def)




text \<open>
  Claim C10.  When the count check passes, the vectors go to the layers in pipeline order,
  vector \<open>k\<close> to layer \<open>k\<close>.  If every layer accepts, every layer is called and is left as
  its own \<^verbatim>\<open>set_parameters\<close> returns it.  If layer \<open>j\<close> is the first to reject, the call
  fails with that layer's error after the calls on layers \<open>0\<close> to \<open>j\<close>; the layers before
  \<open>j\<close> keep what their \<^verbatim>\<open>set_parameters\<close> stored and the layers from \<open>j\<close> on are as they
  were.  Nothing is rolled back.
\<close>

theorem set_parameters_no_rollback:
  assumes "length param = num_layers s"
  shows
   "((\<forall>k<num_layers s. Layer_set_parameters E (m_layers s ! k) (param ! k) \<noteq> None) \<longrightarrow>
       fst (set_parameters E s param) = None \<and>
       calls (snd (set_parameters E s param)) =
         calls s @ map (\<lambda>k. LayerSetParameters k (param ! k)) [0..<num_layers s] \<and>
       length (m_layers (snd (set_parameters E s param))) = num_layers s \<and>
       (\<forall>k<num_layers s. Layer_set_parameters E (m_layers s ! k) (param ! k) =
          Some (m_layers (snd (set_parameters E s param)) ! k))) \<and>
    (j < num_layers s \<and> Layer_set_parameters E (m_layers s ! j) (param ! j) = None \<and>
     (\<forall>k<j. Layer_set_parameters E (m_layers s ! k) (param ! k) \<noteq> None) \<longrightarrow>
       fst (set_parameters E s param) = Some LayerParameterError \<and>
       calls (snd (set_parameters E s param)) =
         calls s @ map (\<lambda>k. LayerSetParameters k (param ! k)) [0..<Suc j] \<and>
       length (m_layers (snd (set_parameters E s param))) = num_layers s \<and>
       (\<forall>k<j. Layer_set_parameters E (m_layers s ! k) (param ! k) =
          Some (m_layers (snd (set_parameters E s param)) ! k)) \<and>
       (\<forall>k. j \<le> k \<and> k < num_layers s \<longrightarrow>
          m_layers (snd (set_parameters E s param)) ! k = m_layers s ! k))"
proof -
  have eq: "set_parameters E s param = set_parameters_loop E 0 (num_layers s) param s"
    using assms by (simp add: set_parameters_def Let_def)
  have len: "num_layers s \<le> length (m_layers s)"
    by (simp add: num_layers_def)
  show ?thesis
  proof (intro conjI impI)
    assume "\<forall>k<num_layers s. Layer_set_parameters E (m_layers s ! k) (param ! k) \<noteq> None"
    then have acc: "\<forall>k. 0 \<le> k \<and> k < num_layers s \<longrightarrow>
        Layer_set_parameters E (m_layers s ! k) (param ! k) \<noteq> None" by simp
    note r = set_parameters_loop_accept [OF len acc]
    show "fst (set_parameters E s param) = None"
      unfolding eq using r by simp
    show "calls (snd (set_parameters E s param)) =
         calls s @ map (\<lambda>k. LayerSetParameters k (param ! k)) [0..<num_layers s]"
      unfolding eq using r by simp
    show "length (m_layers (snd (set_parameters E s param))) = num_layers s"
      unfolding eq using r by (simp add: num_layers_def)
    show "\<forall>k<num_layers s. Layer_set_parameters E (m_layers s ! k) (param ! k) =
          Some (m_layers (snd (set_parameters E s param)) ! k)"
      unfolding eq using r by simp
  next
    assume a: "j < num_layers s \<and> Layer_set_parameters E (m_layers s ! j) (param ! j) = None \<and>
     (\<forall>k<j. Layer_set_parameters E (m_layers s ! k) (param ! k) \<noteq> None)"
    then have acc: "\<forall>k. 0 \<le> k \<and> k < j \<longrightarrow>
        Layer_set_parameters E (m_layers s ! k) (param ! k) \<noteq> None" by simp
    from a have j: "j < num_layers s" and rej: "Layer_set_parameters E (m_layers s ! j) (param ! j) = None"
      by simp_all
    note r = set_parameters_loop_reject [OF len _ j acc rej, of]
    show "fst (set_parameters E s param) = Some LayerParameterError"
      unfolding eq using r by simp
    show "calls (snd (set_parameters E s param)) =
         calls s @ map (\<lambda>k. LayerSetParameters k (param ! k)) [0..<Suc j]"
      unfolding eq using r by simp
    show "length (m_layers (snd (set_parameters E s param))) = num_layers s"
      unfolding eq using r by (simp add: num_layers_def)
    show "\<forall>k<j. Layer_set_parameters E (m_layers s ! k) (param ! k) =
          Some (m_layers (snd (set_parameters E s param)) ! k)"
      unfolding eq using r by simp
    show "\<forall>k. j \<le> k \<and> k < num_layers s \<longrightarrow>
          m_layers (snd (set_parameters E s param)) ! k = m_layers s ! k"
      unfolding eq using r by simp
  qed
qed

theorem set_parameters_no_rollback_witness:
  "length [[1, 2], [3, 4 :: int]] = num_layers toy_network \<and>
   Layer_set_parameters toy (m_layers toy_network ! 0) ([[1, 2], [3, 4]] ! 0) \<noteq> None \<and>
   Layer_set_parameters toy (m_layers toy_network ! 1) ([[1, 2], [3, 4]] ! 1) = None \<and>
   fst (set_parameters toy toy_network [[1, 2], [3, 4]]) = Some LayerParameterError \<and>
   calls (snd (set_parameters toy toy_network [[1, 2], [3, 4]])) =
     [LayerSetParameters 0 [1, 2], LayerSetParameters 1 [3, 4]] \<and>
   m_layers (snd (set_parameters toy toy_network [[1, 2], [3, 4]])) =
     [toy_layer1\<lparr>t_params := [1, 2]\<rparr>, toy_layer2] \<and>
   length [[1, 2], [3 :: int]] = num_layers toy_network \<and>
   Layer_set_parameters toy (m_layers toy_network ! 0) ([[1, 2], [3]] ! 0) \<noteq> None \<and>
   Layer_set_parameters toy (m_layers toy_network ! 1) ([[1, 2], [3]] ! 1) \<noteq> None \<and>
   set_parameters toy toy_network [[1, 2], [3]] =
     (None, toy_network\<lparr>m_layers := [toy_layer1\<lparr>t_params := [1, 2]\<rparr>, toy_layer2\<lparr>t_params := [3]\<rparr>],
        calls := [LayerSetParameters 0 [1, 2], LayerSetParameters 1 [3]]\<rparr>)"
  using set_parameters_no_rollback [of "[[1, 2], [3, 4]]" toy_network toy 1]
    set_parameters_no_rollback [of "[[1, 2], [3]]" toy_network toy 0]
  by (simp add: toy_def toy_layer1_def toy_layer2_def toy_callback_def toy_network_def
      Network_default_def addLayer_def setOutput_def setCallback_def
      num_layers_def set_parameters_def set_parameters_loop.simps static_cast_int_def)

text \<open>
  Claim C8.  Let the number of vectors equal the number of layers and let every layer accept
  its vector.  If the layers are such that \<^verbatim>\<open>get_parameters\<close> of a layer returns the vector
  that its \<^verbatim>\<open>set_parameters\<close> has just accepted, then \<^verbatim>\<open>get_parameters\<close> of the network
  after \<^verbatim>\<open>set_parameters(values)\<close> returns \<open>values\<close>.
\<close>

theorem set_get_parameters_roundtrip:
  assumes "length param = num_layers s"
    and "\<forall>k<num_layers s. Layer_set_parameters E (m_layers s ! k) (param ! k) \<noteq> None"
    and "\<forall>l v l'. Layer_set_parameters E l v = Some l' \<longrightarrow> Layer_get_parameters E l' = v"
  shows "fst (set_parameters E s param) = None \<and>
    get_parameters E (snd (set_parameters E s param)) = param"
proof -
  have eq: "set_parameters E s param = set_parameters_loop E 0 (num_layers s) param s"
    using assms(1) by (simp add: set_parameters_def Let_def)
  have len: "num_layers s \<le> length (m_layers s)"
    by (simp add: num_layers_def)
  from assms(2) have acc: "\<forall>k. 0 \<le> k \<and> k < num_layers s \<longrightarrow>
        Layer_set_parameters E (m_layers s ! k) (param ! k) \<noteq> None" by simp
  note r = set_parameters_loop_accept [OF len acc]
  define s' where "s' = snd (set_parameters E s param)"
  have l': "length (m_layers s') = length param"
    using r assms(1) by (simp add: s'_def eq num_layers_def)
  have "map (Layer_get_parameters E) (m_layers s') = param"
  proof (rule nth_equalityI)
    show "length (map (Layer_get_parameters E) (m_layers s')) = length param"
      using l' by simp
  next
    fix k assume "k < length (map (Layer_get_parameters E) (m_layers s'))"
    then have k: "k < num_layers s" using l' assms(1) by simp
    with r have "Layer_set_parameters E (m_layers s ! k) (param ! k) = Some (m_layers s' ! k)"
      by (simp add: s'_def eq)
    with assms(3) have "Layer_get_parameters E (m_layers s' ! k) = param ! k" by blast
    with k l' assms(1) show "map (Layer_get_parameters E) (m_layers s') ! k = param ! k"
      by simp
  qed
  then show ?thesis
    using r by (simp add: get_parameters_map s'_def eq)
qed

theorem set_get_parameters_roundtrip_witness:
  "length [[1, 2], [3 :: int]] = num_layers toy_network \<and>
   Layer_set_parameters toy (m_layers toy_network ! 0) ([[1, 2], [3]] ! 0) \<noteq> None \<and>
   Layer_set_parameters toy (m_layers toy_network ! 1) ([[1, 2], [3]] ! 1) \<noteq> None \<and>
   get_parameters toy (snd (set_parameters toy toy_network [[1, 2], [3]])) = [[1, 2], [3]]"
proof -
  have n: "num_layers toy_network = 2"
    by (simp add: toy_network_def Network_default_def addLayer_def setOutput_def setCallback_def
        num_layers_def)
  have 1: "length [[1, 2], [3 :: int]] = num_layers toy_network"
    using n by simp
  have a: "Layer_set_parameters toy (m_layers toy_network ! 0) ([[1, 2], [3]] ! 0) \<noteq> None \<and>
   Layer_set_parameters toy (m_layers toy_network ! 1) ([[1, 2], [3]] ! 1) \<noteq> None"
    by (simp add: toy_def toy_layer1_def toy_layer2_def toy_callback_def toy_network_def
      Network_default_def addLayer_def setOutput_def setCallback_def)
  then have 2: "\<forall>k<num_layers toy_network.
      Layer_set_parameters toy (m_layers toy_network ! k) ([[1, 2], [3]] ! k) \<noteq> None"
    unfolding n by (simp add: less_Suc_eq numeral_2_eq_2)
  have 3: "\<forall>l v l'. Layer_set_parameters toy l v = Some l' \<longrightarrow> Layer_get_parameters toy l' = v"
    by (auto simp: toy_def split: if_splits)
  from set_get_parameters_roundtrip [OF 1 2 3] 1 a show ?thesis by simp
qed

section \<open>Training\<close>

lemma filter_made_by_fit_forward:
  "filter made_by_fit (map (\<lambda>k. LayerForward k (f k)) ks) = []"
  by (induction ks) simp_all

lemma filter_made_by_fit_backprop:
  "filter made_by_fit (map (\<lambda>k. LayerBackprop k (f k) (g k)) ks) = []"
  by (induction ks) simp_all

lemma filter_made_by_fit_update:
  "filter made_by_fit (map LayerUpdate ks) = []"
  by (induction ks) simp_all

lemma forward_frame:
  assumes "m_layers s \<noteq> []"
    and "Matrix_rows E input = Layer_in_size E (m_layers s ! 0)"
    and "\<forall>l x. Layer_in_size E (Layer_forward E l x) = Layer_in_size E l"
  shows "\<exists>s' cs. forward E s input = (None, s') \<and>
    calls s' = calls s @ cs \<and> filter made_by_fit cs = [] \<and>
    length (m_layers s') = length (m_layers s) \<and>
    Layer_in_size E (m_layers s' ! 0) = Layer_in_size E (m_layers s ! 0) \<and>
    m_output s' = m_output s \<and> m_callback s' = m_callback s \<and> m_rng s' = m_rng s"
proof -
  note r = forward_run [OF assms(1) assms(2)]
  define s' where "s' = snd (forward E s input)"
  have eq: "forward E s input = (None, s')"
    using r by (simp add: s'_def prod_eq_iff)
  have "0 < length (m_layers s)" using assms(1) by simp
  with r have "m_layers s' ! 0 = Layer_forward E (m_layers s ! 0) input"
    unfolding s'_def by auto
  with assms(3) have "Layer_in_size E (m_layers s' ! 0) = Layer_in_size E (m_layers s ! 0)"
    by simp
  moreover have "filter made_by_fit (map (\<lambda>k. LayerForward k
         (if k = 0 then input else Layer_output E (m_layers s' ! (k - 1))))
        [0..<length (m_layers s)]) = []"
    by (rule filter_made_by_fit_forward)
  ultimately show ?thesis
    using r eq unfolding s'_def [symmetric] by blast
qed

lemma backprop_frame:
  assumes "m_layers s \<noteq> []" and "m_output s = Some out"
    and "Output_check_target_data E out target"
    and "\<forall>l x g. Layer_in_size E (Layer_backprop E l x g) = Layer_in_size E l"
  shows "\<exists>s' cs out'. backprop E s input target = (None, s') \<and>
    calls s' = calls s @ cs \<and> filter made_by_fit cs = [] \<and>
    length (m_layers s') = length (m_layers s) \<and>
    Layer_in_size E (m_layers s' ! 0) = Layer_in_size E (m_layers s ! 0) \<and>
    m_output s' = Some out' \<and> m_callback s' = m_callback s \<and> m_rng s' = m_rng s"
proof -
  note r = backprop_run [OF assms(1) assms(2) assms(3), of input]
  define s' where "s' = snd (backprop E s input target)"
  have eq: "backprop E s input target = (None, s')"
    using r by (simp add: s'_def prod_eq_iff)
  have "0 < length (m_layers s)" using assms(1) by simp
  with r have "\<exists>x g. m_layers s' ! 0 = Layer_backprop E (m_layers s ! 0) x g"
    unfolding s'_def by blast
  with assms(4) have "Layer_in_size E (m_layers s' ! 0) = Layer_in_size E (m_layers s ! 0)"
    by auto
  moreover have "filter made_by_fit
     ([OutputCheckTargetData target,
       OutputEvaluate (Layer_output E (m_layers s ! (length (m_layers s) - 1))) target] @
      map (\<lambda>k. LayerBackprop k
         (if k = 0 then input else Layer_output E (m_layers s ! (k - 1)))
         (if Suc k = length (m_layers s)
          then Output_backprop_data E
                 (Output_evaluate E out
                    (Layer_output E (m_layers s ! (length (m_layers s) - 1))) target)
          else Layer_backprop_data E (m_layers s' ! (k + 1))))
        (rev [0..<length (m_layers s)])) = []"
    by (simp add: filter_made_by_fit_backprop)
  ultimately show ?thesis
    using r eq unfolding s'_def [symmetric] by blast
qed

lemma update_loop_run:
  assumes "nlayer \<le> length (m_layers s)"
    and "\<forall>l p. Layer_in_size E (fst (Layer_update E l p)) = Layer_in_size E l"
  shows "length (m_layers (fst (update_loop E i nlayer s opt))) = length (m_layers s) \<and>
    Layer_in_size E (m_layers (fst (update_loop E i nlayer s opt)) ! 0) =
      Layer_in_size E (m_layers s ! 0) \<and>
    calls (fst (update_loop E i nlayer s opt)) = calls s @ map LayerUpdate [i..<nlayer] \<and>
    m_output (fst (update_loop E i nlayer s opt)) = m_output s \<and>
    m_callback (fst (update_loop E i nlayer s opt)) = m_callback s \<and>
    m_rng (fst (update_loop E i nlayer s opt)) = m_rng s"
  using assms(1)
proof (induction "nlayer - i" arbitrary: i s opt)
  case 0
  then have "update_loop E i nlayer s opt = (s, opt)"
    by (subst update_loop.simps) simp
  with 0 show ?case by simp
next
  case (Suc d)
  then have i: "i < nlayer" by simp
  obtain layer' opt' where lu: "Layer_update E (m_layers s ! i) opt = (layer', opt')"
    by (cases "Layer_update E (m_layers s ! i) opt")
  define s1 where "s1 = s\<lparr>m_layers := (m_layers s)[i := layer'], calls := calls s @ [LayerUpdate i]\<rparr>"
  have step: "update_loop E i nlayer s opt = update_loop E (i + 1) nlayer s1 opt'"
    using i lu by (subst update_loop.simps) (simp add: Layer_update_at_def s1_def)
  have d: "d = nlayer - (i + 1)" using Suc.hyps by simp
  have len: "nlayer \<le> length (m_layers s1)" using Suc.prems by (simp add: s1_def)
  note IH = Suc.hyps(1) [OF d len, of opt']
  have "Layer_in_size E layer' = Layer_in_size E (m_layers s ! i)"
    using assms(2) lu by (metis fst_conv)
  moreover have "i < length (m_layers s)"
    using i Suc.prems by simp
  ultimately have "Layer_in_size E (m_layers s1 ! 0) = Layer_in_size E (m_layers s ! 0)"
    by (cases "i = 0") (simp_all add: s1_def)
  with IH i show ?case
    unfolding step by (simp add: s1_def upt_conv_Cons)
qed

lemma update_frame:
  assumes "\<forall>l p. Layer_in_size E (fst (Layer_update E l p)) = Layer_in_size E l"
  shows "\<exists>s' opt' cs. update E s opt = (s', opt') \<and>
    calls s' = calls s @ cs \<and> filter made_by_fit cs = [] \<and>
    length (m_layers s') = length (m_layers s) \<and>
    Layer_in_size E (m_layers s' ! 0) = Layer_in_size E (m_layers s ! 0) \<and>
    m_output s' = m_output s \<and> m_callback s' = m_callback s \<and> m_rng s' = m_rng s"
proof (cases "num_layers s \<le> 0")
  case True
  then have "update E s opt = (s, opt)" by (simp add: update_def Let_def)
  then show ?thesis by simp
next
  case False
  then have eq: "update E s opt = update_loop E 0 (length (m_layers s)) s opt"
    by (simp add: update_def Let_def num_layers_def)
  have "length (m_layers s) \<le> length (m_layers s)" by simp
  note r = update_loop_run [OF this assms, of 0 opt]
  have "update E s opt = (fst (update E s opt), snd (update E s opt))" by simp
  moreover have "filter made_by_fit (map LayerUpdate [0..<length (m_layers s)]) = []"
    by (rule filter_made_by_fit_update)
  ultimately show ?thesis
    using r unfolding eq by blast
qed

lemma train_batch_run:
  assumes "trainable E d s"
    and "0 \<le> i" and "nat i < length x_batches" and "nat i < length y_batches"
    and "Matrix_rows E (x_batches ! nat i) = d"
    and "\<forall>out. Output_check_target_data E out (y_batches ! nat i)"
    and "\<forall>l x. Layer_in_size E (Layer_forward E l x) = Layer_in_size E l"
    and "\<forall>l x g. Layer_in_size E (Layer_backprop E l x g) = Layer_in_size E l"
    and "\<forall>l p. Layer_in_size E (fst (Layer_update E l p)) = Layer_in_size E l"
  shows "\<exists>s' opt' cs. train_batch E x_batches y_batches i s opt = (None, s', opt') \<and>
    calls s' = calls s @ cs \<and> filter made_by_fit cs = batch_calls x_batches y_batches (nat i) \<and>
    trainable E d s' \<and> m_rng s' = m_rng s"
proof -
  define x where "x = x_batches ! nat i"
  define y where "y = y_batches ! nat i"
  from assms(1) obtain cb out where
    ne: "m_layers s \<noteq> []" and d: "Layer_in_size E (m_layers s ! 0) = d" and
    cb: "m_callback s = Some cb" and out: "m_output s = Some out"
    by (auto simp: trainable_def)
  define s1 where "s1 = s\<lparr>m_callback := Some (cb\<lparr>m_batch_id := i\<rparr>),
      calls := calls s @ [CallbackBatchId i]\<rparr>"
  define s2 where "s2 = s1\<lparr>m_callback :=
        Some (Callback_pre_training_batch E (cb\<lparr>m_batch_id := i\<rparr>) s1 x y),
      calls := calls s1 @ [PreTrainingBatch x y]\<rparr>"
  define s2' where "s2' = s2\<lparr>calls := calls s2 @ [NetworkForward x]\<rparr>"
  have w1: "callback_write (\<lambda>cb. cb\<lparr>m_batch_id := i\<rparr>) (CallbackBatchId i) s = (None, s1)"
    using cb by (simp add: callback_write_def s1_def)
  have h1: "callback_hook (Callback_pre_training_batch E) (PreTrainingBatch x y) x y s1 = (None, s2)"
    by (simp add: callback_hook_def s1_def s2_def)
  have "m_layers s2' \<noteq> []" and "Matrix_rows E x = Layer_in_size E (m_layers s2' ! 0)"
    using ne d assms(5) by (simp_all add: s2'_def s2_def s1_def x_def)
  from forward_frame [OF this assms(7)] obtain s3 cs3 where
    f: "forward E s2' x = (None, s3)" and
    c3: "calls s3 = calls s2' @ cs3" "filter made_by_fit cs3 = []" and
    l3: "length (m_layers s3) = length (m_layers s2')"
        "Layer_in_size E (m_layers s3 ! 0) = Layer_in_size E (m_layers s2' ! 0)" and
    r3: "m_output s3 = m_output s2'" "m_callback s3 = m_callback s2'" "m_rng s3 = m_rng s2'"
    by blast
  define s3' where "s3' = s3\<lparr>calls := calls s3 @ [NetworkBackprop x y]\<rparr>"
  have "m_layers s3' \<noteq> []" and "m_output s3' = Some out" and "Output_check_target_data E out y"
    using ne out l3 r3 assms(6) by (auto simp: s3'_def s2'_def s2_def s1_def y_def)
  from backprop_frame [OF this assms(8), of x] obtain s4 cs4 out4 where
    b: "backprop E s3' x y = (None, s4)" and
    c4: "calls s4 = calls s3' @ cs4" "filter made_by_fit cs4 = []" and
    l4: "length (m_layers s4) = length (m_layers s3')"
        "Layer_in_size E (m_layers s4 ! 0) = Layer_in_size E (m_layers s3' ! 0)" and
    r4: "m_output s4 = Some out4" "m_callback s4 = m_callback s3'" "m_rng s4 = m_rng s3'"
    by blast
  define s4' where "s4' = s4\<lparr>calls := calls s4 @ [NetworkUpdate]\<rparr>"
  from update_frame [OF assms(9), of s4' opt] obtain s5 opt' cs5 where
    u: "update E s4' opt = (s5, opt')" and
    c5: "calls s5 = calls s4' @ cs5" "filter made_by_fit cs5 = []" and
    l5: "length (m_layers s5) = length (m_layers s4')"
        "Layer_in_size E (m_layers s5 ! 0) = Layer_in_size E (m_layers s4' ! 0)" and
    r5: "m_output s5 = m_output s4'" "m_callback s5 = m_callback s4'" "m_rng s5 = m_rng s4'"
    by blast
  have cb5: "m_callback s5 = Some (Callback_pre_training_batch E (cb\<lparr>m_batch_id := i\<rparr>) s1 x y)"
    using r5 r4 r3 by (simp add: s4'_def s3'_def s2'_def s2_def)
  define s6 where "s6 = s5\<lparr>m_callback := Some (Callback_post_training_batch E
        (Callback_pre_training_batch E (cb\<lparr>m_batch_id := i\<rparr>) s1 x y) s5 x y),
      calls := calls s5 @ [PostTrainingBatch x y]\<rparr>"
  have h2: "callback_hook (Callback_post_training_batch E) (PostTrainingBatch x y) x y s5 = (None, s6)"
    using cb5 by (simp add: callback_hook_def s6_def)
  have run: "train_batch E x_batches y_batches i s opt = (None, s6, opt')"
    using assms(2,3,4) w1 h1 f b u h2
    by (simp add: train_batch_def Let_def x_def [symmetric] y_def [symmetric]
        s2'_def [symmetric] s3'_def [symmetric] s4'_def [symmetric])
  have log: "calls s6 = calls s @ ([CallbackBatchId i, PreTrainingBatch x y, NetworkForward x] @ cs3 @
      [NetworkBackprop x y] @ cs4 @ [NetworkUpdate] @ cs5 @ [PostTrainingBatch x y])"
    using c3 c4 c5 by (simp add: s6_def s4'_def s3'_def s2'_def s2_def s1_def)
  have flt: "filter made_by_fit ([CallbackBatchId i, PreTrainingBatch x y, NetworkForward x] @ cs3 @
      [NetworkBackprop x y] @ cs4 @ [NetworkUpdate] @ cs5 @ [PostTrainingBatch x y]) =
      batch_calls x_batches y_batches (nat i)"
    using c3 c4 c5 assms(2) by (simp add: batch_calls_def x_def y_def)
  have inv: "trainable E d s6"
    using ne d l3 l4 l5 r4 r5
    by (auto simp: trainable_def s6_def s4'_def s3'_def s2'_def s2_def s1_def)
  have rng: "m_rng s6 = m_rng s"
    using r3 r4 r5 by (simp add: s6_def s4'_def s3'_def s2'_def s2_def s1_def)
  from run log flt inv rng show ?thesis by blast
qed

lemma batch_loop_run:
  assumes "trainable E d s" and "0 \<le> i"
    and "nat nbatch \<le> length x_batches" and "nat nbatch \<le> length y_batches"
    and "\<forall>j<nat nbatch. Matrix_rows E (x_batches ! j) = d"
    and "\<forall>out. \<forall>j<nat nbatch. Output_check_target_data E out (y_batches ! j)"
    and "\<forall>l x. Layer_in_size E (Layer_forward E l x) = Layer_in_size E l"
    and "\<forall>l x g. Layer_in_size E (Layer_backprop E l x g) = Layer_in_size E l"
    and "\<forall>l p. Layer_in_size E (fst (Layer_update E l p)) = Layer_in_size E l"
  shows "\<exists>s' opt' cs. batch_loop E x_batches y_batches i nbatch s opt = (None, s', opt') \<and>
    calls s' = calls s @ cs \<and>
    filter made_by_fit cs = concat (map (batch_calls x_batches y_batches) [nat i..<nat nbatch]) \<and>
    trainable E d s' \<and> m_rng s' = m_rng s"
  using assms(1,2)
proof (induction "nat (nbatch - i)" arbitrary: i s opt)
  case 0
  then have "batch_loop E x_batches y_batches i nbatch s opt = (None, s, opt)"
    by (subst batch_loop.simps) simp
  moreover have "[nat i..<nat nbatch] = []" using 0 by simp
  ultimately show ?case using 0 by simp
next
  case (Suc n)
  then have i: "i < nbatch" "0 \<le> i" by simp_all
  then have ni: "nat i < nat nbatch" by simp
  have b1: "nat i < length x_batches" using ni assms(3) by linarith
  have b2: "nat i < length y_batches" using ni assms(4) by linarith
  have b3: "Matrix_rows E (x_batches ! nat i) = d" using ni assms(5) by blast
  have b4: "\<forall>out. Output_check_target_data E out (y_batches ! nat i)"
    using ni assms(6) by blast
  from train_batch_run [OF Suc.prems(1) i(2) b1 b2 b3 b4 assms(7,8,9), of opt]
  obtain s1 opt1 cs1 where
    t: "train_batch E x_batches y_batches i s opt = (None, s1, opt1)" and
    c1: "calls s1 = calls s @ cs1"
        "filter made_by_fit cs1 = batch_calls x_batches y_batches (nat i)" and
    inv1: "trainable E d s1" and rng1: "m_rng s1 = m_rng s"
    by blast
  have step: "batch_loop E x_batches y_batches i nbatch s opt =
      batch_loop E x_batches y_batches (i + 1) nbatch s1 opt1"
    using i t by (subst batch_loop.simps) simp
  have n: "n = nat (nbatch - (i + 1))" using Suc.hyps(2) by simp
  have "0 \<le> i + 1" using i by simp
  from Suc.hyps(1) [OF n inv1 this, of opt1] obtain s' opt' cs where
    r: "batch_loop E x_batches y_batches (i + 1) nbatch s1 opt1 = (None, s', opt')" and
    c: "calls s' = calls s1 @ cs"
       "filter made_by_fit cs =
          concat (map (batch_calls x_batches y_batches) [nat (i + 1)..<nat nbatch])" and
    inv: "trainable E d s'" and rng: "m_rng s' = m_rng s1"
    by blast
  have "nat (i + 1) = Suc (nat i)" using i by simp
  with ni have "[nat i..<nat nbatch] = nat i # [nat (i + 1)..<nat nbatch]"
    by (simp add: upt_conv_Cons)
  with c c1 have "calls s' = calls s @ (cs1 @ cs) \<and>
      filter made_by_fit (cs1 @ cs) =
        concat (map (batch_calls x_batches y_batches) [nat i..<nat nbatch])"
    by simp
  with r inv rng rng1 have
    "batch_loop E x_batches y_batches (i + 1) nbatch s1 opt1 = (None, s', opt') \<and>
     calls s' = calls s @ (cs1 @ cs) \<and>
     filter made_by_fit (cs1 @ cs) =
       concat (map (batch_calls x_batches y_batches) [nat i..<nat nbatch]) \<and>
     trainable E d s' \<and> m_rng s' = m_rng s"
    by simp
  then show ?case
    unfolding step by (intro exI)
qed


lemma epoch_loop_run:
  assumes "trainable E d s" and "0 \<le> k"
    and "nat nbatch \<le> length x_batches" and "nat nbatch \<le> length y_batches"
    and "\<forall>j<nat nbatch. Matrix_rows E (x_batches ! j) = d"
    and "\<forall>out. \<forall>j<nat nbatch. Output_check_target_data E out (y_batches ! j)"
    and "\<forall>l x. Layer_in_size E (Layer_forward E l x) = Layer_in_size E l"
    and "\<forall>l x g. Layer_in_size E (Layer_backprop E l x g) = Layer_in_size E l"
    and "\<forall>l p. Layer_in_size E (fst (Layer_update E l p)) = Layer_in_size E l"
  shows "\<exists>s' opt' cs. epoch_loop E x_batches y_batches nbatch k epoch s opt = (None, s', opt') \<and>
    calls s' = calls s @ cs \<and>
    filter made_by_fit cs =
      concat (map (epoch_calls x_batches y_batches (nat nbatch)) [nat k..<nat epoch]) \<and>
    trainable E d s' \<and> m_rng s' = m_rng s"
  using assms(1,2)
proof (induction "nat (epoch - k)" arbitrary: k s opt)
  case 0
  then have "epoch_loop E x_batches y_batches nbatch k epoch s opt = (None, s, opt)"
    by (subst epoch_loop.simps) simp
  moreover have "[nat k..<nat epoch] = []" using 0 by simp
  ultimately show ?case using 0 by simp
next
  case (Suc n)
  then have k: "k < epoch" "0 \<le> k" by simp_all
  then have nk: "nat k < nat epoch" by simp
  from Suc.prems(1) obtain cb where cb: "m_callback s = Some cb"
    by (auto simp: trainable_def)
  define s1 where "s1 = s\<lparr>m_callback := Some (cb\<lparr>m_epoch_id := k\<rparr>),
      calls := calls s @ [CallbackEpochId k]\<rparr>"
  have w: "callback_write (\<lambda>cb. cb\<lparr>m_epoch_id := k\<rparr>) (CallbackEpochId k) s = (None, s1)"
    using cb by (simp add: callback_write_def s1_def)
  have inv1: "trainable E d s1"
    using Suc.prems(1) by (simp add: trainable_def s1_def)
  have "(0::int) \<le> 0" by simp
  from batch_loop_run [OF inv1 this assms(3,4,5,6,7,8,9), of opt]
  obtain s2 opt2 cs2 where
    b: "batch_loop E x_batches y_batches 0 nbatch s1 opt = (None, s2, opt2)" and
    c2: "calls s2 = calls s1 @ cs2"
        "filter made_by_fit cs2 =
           concat (map (batch_calls x_batches y_batches) [nat 0..<nat nbatch])" and
    inv2: "trainable E d s2" and rng2: "m_rng s2 = m_rng s1"
    by blast
  have step: "epoch_loop E x_batches y_batches nbatch k epoch s opt =
      epoch_loop E x_batches y_batches nbatch (k + 1) epoch s2 opt2"
    using k w b by (subst epoch_loop.simps) simp
  have n: "n = nat (epoch - (k + 1))" using Suc.hyps(2) by simp
  have "0 \<le> k + 1" using k by simp
  from Suc.hyps(1) [OF n inv2 this, of opt2] obtain s' opt' cs where
    r: "epoch_loop E x_batches y_batches nbatch (k + 1) epoch s2 opt2 = (None, s', opt')" and
    c: "calls s' = calls s2 @ cs"
       "filter made_by_fit cs =
          concat (map (epoch_calls x_batches y_batches (nat nbatch)) [nat (k + 1)..<nat epoch])" and
    inv: "trainable E d s'" and rng: "m_rng s' = m_rng s2"
    by blast
  have "nat (k + 1) = Suc (nat k)" using k by simp
  with nk have "[nat k..<nat epoch] = nat k # [nat (k + 1)..<nat epoch]"
    by (simp add: upt_conv_Cons)
  moreover have "calls s' = calls s @ (CallbackEpochId k # cs2 @ cs)"
    using c c2 by (simp add: s1_def)
  moreover have "filter made_by_fit (CallbackEpochId k # cs2) =
      epoch_calls x_batches y_batches (nat nbatch) (nat k)"
    using c2 k by (simp add: epoch_calls_def)
  ultimately have "calls s' = calls s @ (CallbackEpochId k # cs2 @ cs) \<and>
      filter made_by_fit (CallbackEpochId k # cs2 @ cs) =
        concat (map (epoch_calls x_batches y_batches (nat nbatch)) [nat k..<nat epoch])"
    using c by simp
  moreover have "m_rng s' = m_rng s"
    using rng rng2 by (simp add: s1_def)
  ultimately have "epoch_loop E x_batches y_batches nbatch (k + 1) epoch s2 opt2 = (None, s', opt') \<and>
    calls s' = calls s @ (CallbackEpochId k # cs2 @ cs) \<and>
    filter made_by_fit (CallbackEpochId k # cs2 @ cs) =
      concat (map (epoch_calls x_batches y_batches (nat nbatch)) [nat k..<nat epoch]) \<and>
    trainable E d s' \<and> m_rng s' = m_rng s"
    using r inv by simp
  then show ?case
    unfolding step by (intro exI)
qed

lemma fit_run:
  fixes s :: "('l, 'o, 'c, 'r, 'm, 't, 's) Network"
  assumes "m_layers s \<noteq> []" and "m_callback s \<noteq> None" and "m_output s \<noteq> None"
    and "create_shuffled_batches E x y batch_size
           (if seed > 0 then Rng_seed E seed else m_rng s) = (nbatch, x_batches, y_batches, rng')"
    and "nat nbatch \<le> length x_batches" and "nat nbatch \<le> length y_batches"
    and "\<forall>j<nat nbatch. Matrix_rows E (x_batches ! j) = Layer_in_size E (m_layers s ! 0)"
    and "\<forall>out. \<forall>j<nat nbatch. Output_check_target_data E out (y_batches ! j)"
    and "\<forall>l x. Layer_in_size E (Layer_forward E l x) = Layer_in_size E l"
    and "\<forall>l x g. Layer_in_size E (Layer_backprop E l x g) = Layer_in_size E l"
    and "\<forall>l p. Layer_in_size E (fst (Layer_update E l p)) = Layer_in_size E l"
  shows "\<exists>s' opt' cs. fit E s opt x y batch_size epoch seed = (Inr True, s', opt') \<and>
    calls s' = calls s @ cs \<and>
    filter made_by_fit cs =
      OptimizerReset # (if seed > 0 then [RngSeed seed] else []) @
      [CreateShuffledBatches batch_size, CallbackNBatch nbatch, CallbackNEpoch epoch] @
      concat (map (epoch_calls x_batches y_batches (nat nbatch)) [0..<nat epoch]) \<and>
    m_rng s' = rng'"
proof -
  from assms(2) obtain cb where cb: "m_callback s = Some cb" by auto
  define pre :: "('m, 't, 's) call list" where "pre = OptimizerReset # (if seed > 0 then [RngSeed seed] else []) @
      [CreateShuffledBatches batch_size, CallbackNBatch nbatch, CallbackNEpoch epoch]"
  define s5 where "s5 = s\<lparr>m_rng := rng',
      m_callback := Some (cb\<lparr>m_nbatch := nbatch, m_nepoch := epoch\<rparr>),
      calls := calls s @ pre\<rparr>"
  have inv5: "trainable E (Layer_in_size E (m_layers s ! 0)) s5"
    using assms(1,3) by (simp add: trainable_def s5_def)
  have "(0::int) \<le> 0" by simp
  from epoch_loop_run [OF inv5 this assms(5,6,7,8,9,10,11), of epoch "Optimizer_reset E opt"]
  obtain s' opt' cs where
    r: "epoch_loop E x_batches y_batches nbatch 0 epoch s5 (Optimizer_reset E opt) = (None, s', opt')" and
    c: "calls s' = calls s5 @ cs"
       "filter made_by_fit cs =
          concat (map (epoch_calls x_batches y_batches (nat nbatch)) [nat 0..<nat epoch])" and
    rng: "m_rng s' = m_rng s5"
    by blast
  have eq: "fit E s opt x y batch_size epoch seed = (Inr True, s', opt')"
  proof (cases "seed > 0")
    case True
    with assms(1,4) cb r show ?thesis
      by (simp add: fit_def Let_def num_layers_def callback_write_def s5_def pre_def)
  next
    case False
    with assms(1,4) cb r show ?thesis
      by (simp add: fit_def Let_def num_layers_def callback_write_def s5_def pre_def)
  qed
  have "calls s' = calls s @ (pre @ cs)"
    using c by (simp add: s5_def)
  moreover have "filter made_by_fit (pre @ cs) = pre @
      concat (map (epoch_calls x_batches y_batches (nat nbatch)) [0..<nat epoch])"
    using c by (simp add: pre_def)
  moreover have "m_rng s' = rng'"
    using rng by (simp add: s5_def)
  ultimately have "fit E s opt x y batch_size epoch seed = (Inr True, s', opt') \<and>
    calls s' = calls s @ (pre @ cs) \<and>
    filter made_by_fit (pre @ cs) = pre @
      concat (map (epoch_calls x_batches y_batches (nat nbatch)) [0..<nat epoch]) \<and>
    m_rng s' = rng'"
    using eq by simp
  then show ?thesis
    apply (intro exI [of _ s'] exI [of _ opt'] exI [of _ "pre @ cs"])
    apply (simp add: pre_def)
    done
qed









text \<open>
  The loops of \<^verbatim>\<open>forward\<close>, \<^verbatim>\<open>backprop\<close> and \<^verbatim>\<open>update\<close> compute the functions on the list
  of layers, and so one pass through the inner loop of \<^verbatim>\<open>fit\<close> is one \<open>train_step\<close>.
\<close>

lemma forward_layers_char:
  assumes "length ls' = length ls"
    and "\<forall>k<length ls. ls' ! k =
       Layer_forward E (ls ! k) (if k = 0 then x else Layer_output E (ls' ! (k - 1)))"
  shows "ls' = forward_layers E x ls"
  using assms
proof (induction ls arbitrary: ls' x)
  case Nil
  then show ?case by simp
next
  case (Cons l r)
  then obtain l' r' where ls': "ls' = l' # r'" by (cases ls') auto
  have l': "l' = Layer_forward E l x"
    using Cons.prems(2) by (auto simp: ls')
  have "\<forall>k<length r. r' ! k =
       Layer_forward E (r ! k) (if k = 0 then Layer_output E l' else Layer_output E (r' ! (k - 1)))"
  proof (intro allI impI)
    fix k assume k: "k < length r"
    then have "Suc k < length (l # r)" by simp
    from Cons.prems(2) [rule_format, OF this] have "ls' ! Suc k =
       Layer_forward E ((l # r) ! Suc k) (Layer_output E (ls' ! k))"
      by simp
    then show "r' ! k =
       Layer_forward E (r ! k) (if k = 0 then Layer_output E l' else Layer_output E (r' ! (k - 1)))"
      by (cases k) (simp_all add: ls')
  qed
  moreover have "length r' = length r" using Cons.prems(1) by (simp add: ls')
  ultimately have "r' = forward_layers E (Layer_output E l') r"
    by (rule Cons.IH [rotated])
  with l' show ?case by (simp add: ls' Let_def)
qed

lemma backprop_layers_char:
  assumes "length ls' = length ls"
    and "\<forall>k<length ls. ls' ! k =
       Layer_backprop E (ls ! k) (if k = 0 then x else Layer_output E (ls ! (k - 1)))
         (if Suc k = length ls then g else Layer_backprop_data E (ls' ! (k + 1)))"
  shows "backprop_layers E x g ls =
     (ls', if ls = [] then g else Layer_backprop_data E (ls' ! 0))"
  using assms
proof (induction ls arbitrary: ls' x)
  case Nil
  then show ?case by simp
next
  case (Cons l r)
  then obtain l' r' where ls': "ls' = l' # r'" by (cases ls') auto
  have len: "length r' = length r" using Cons.prems(1) by (simp add: ls')
  have "\<forall>k<length r. r' ! k =
       Layer_backprop E (r ! k) (if k = 0 then Layer_output E l else Layer_output E (r ! (k - 1)))
         (if Suc k = length r then g else Layer_backprop_data E (r' ! (k + 1)))"
  proof (intro allI impI)
    fix k assume k: "k < length r"
    then have "Suc k < length (l # r)" by simp
    from Cons.prems(2) [rule_format, OF this] have "ls' ! Suc k =
       Layer_backprop E ((l # r) ! Suc k) (Layer_output E ((l # r) ! k))
         (if Suc (Suc k) = length (l # r) then g else Layer_backprop_data E (ls' ! (Suc k + 1)))"
      by simp
    then show "r' ! k =
       Layer_backprop E (r ! k) (if k = 0 then Layer_output E l else Layer_output E (r ! (k - 1)))
         (if Suc k = length r then g else Layer_backprop_data E (r' ! (k + 1)))"
      by (cases k) (simp_all add: ls')
  qed
  with len have IH: "backprop_layers E (Layer_output E l) g r =
     (r', if r = [] then g else Layer_backprop_data E (r' ! 0))"
    by (rule Cons.IH)
  have "0 < length (l # r)" by simp
  from Cons.prems(2) [rule_format, OF this]
  have a: "ls' ! 0 = Layer_backprop E ((l # r) ! 0) x
         (if Suc 0 = length (l # r) then g else Layer_backprop_data E (ls' ! (0 + 1)))"
    by simp
  have b: "ls' ! 0 = l'" "ls' ! (0 + 1) = r' ! 0" "(l # r) ! 0 = l"
    "(Suc 0 = length (l # r)) = (r = [])"
    by (auto simp: ls')
  from a have l': "l' = Layer_backprop E l x (if r = [] then g else Layer_backprop_data E (r' ! 0))"
    unfolding b .
  show ?case
    unfolding ls' backprop_layers.simps IH by (simp add: Let_def l' [symmetric])
qed

lemma update_loop_layers:
  assumes "nlayer = length (m_layers s)" and "i \<le> nlayer"
  shows "update_loop E i nlayer s opt =
    (s\<lparr>m_layers := take i (m_layers s) @ fst (update_layers E (drop i (m_layers s)) opt),
       calls := calls s @ map LayerUpdate [i..<nlayer]\<rparr>,
     snd (update_layers E (drop i (m_layers s)) opt))"
  using assms
proof (induction "nlayer - i" arbitrary: i s opt)
  case 0
  then have "update_loop E i nlayer s opt = (s, opt)"
    by (subst update_loop.simps) simp
  with 0 show ?case by simp
next
  case (Suc d)
  then have i: "i < nlayer" by simp
  then have il: "i < length (m_layers s)" using Suc.prems by simp
  obtain layer' opt' where lu: "Layer_update E (m_layers s ! i) opt = (layer', opt')"
    by (cases "Layer_update E (m_layers s ! i) opt")
  define s1 where "s1 = s\<lparr>m_layers := (m_layers s)[i := layer'], calls := calls s @ [LayerUpdate i]\<rparr>"
  have step: "update_loop E i nlayer s opt = update_loop E (i + 1) nlayer s1 opt'"
    using i lu by (subst update_loop.simps) (simp add: Layer_update_at_def s1_def)
  have d: "d = nlayer - (i + 1)" using Suc.hyps by simp
  have len: "nlayer = length (m_layers s1)" using Suc.prems by (simp add: s1_def)
  have i1: "i + 1 \<le> nlayer" using i by simp
  note IH = Suc.hyps(1) [OF d len i1, of opt']
  obtain rest opt'' where ul: "update_layers E (drop (Suc i) (m_layers s)) opt' = (rest, opt'')"
    by (cases "update_layers E (drop (Suc i) (m_layers s)) opt'")
  have dr: "drop i (m_layers s) = m_layers s ! i # drop (Suc i) (m_layers s)"
    using il by (simp add: Cons_nth_drop_Suc)
  have here: "update_layers E (drop i (m_layers s)) opt = (layer' # rest, opt'')"
    by (simp add: dr lu ul)
  have tk: "take (Suc i) ((m_layers s)[i := layer']) = take i (m_layers s) @ [layer']"
    using il by (simp add: take_Suc_conv_app_nth)
  have "update_loop E (i + 1) nlayer s1 opt' =
     (s\<lparr>m_layers := take i (m_layers s) @ layer' # rest,
        calls := calls s @ map LayerUpdate [i..<nlayer]\<rparr>, opt'')"
    unfolding IH using i ul tk by (simp add: s1_def upt_conv_Cons)
  then show ?case
    unfolding step by (simp add: here)
qed

lemma update_layers_length:
  "length (fst (update_layers E ls opt)) = length ls"
proof (induction ls arbitrary: opt)
  case Nil
  then show ?case by simp
next
  case (Cons l ls)
  obtain l' opt' where 1: "Layer_update E l opt = (l', opt')"
    by (cases "Layer_update E l opt")
  obtain ls' opt'' where 2: "update_layers E ls opt' = (ls', opt'')"
    by (cases "update_layers E ls opt'")
  from Cons [of opt'] 2 have "length ls' = length ls" by simp
  with 1 2 show ?case by simp
qed

lemma update_state:
  "update E s opt =
    (s\<lparr>m_layers := fst (update_layers E (m_layers s) opt),
       calls := calls s @ map LayerUpdate [0..<num_layers s]\<rparr>,
     snd (update_layers E (m_layers s) opt))"
proof (cases "num_layers s \<le> 0")
  case True
  then show ?thesis by (simp add: update_def Let_def num_layers_def)
next
  case False
  then show ?thesis
    using update_loop_layers [of "length (m_layers s)" s 0 E opt]
    by (simp add: update_def Let_def num_layers_def)
qed


lemma forward_state:
  assumes "m_layers s \<noteq> []"
    and "Matrix_rows E input = Layer_in_size E (m_layers s ! 0)"
  shows "fst (forward E s input) = None \<and>
    m_layers (snd (forward E s input)) = forward_layers E input (m_layers s) \<and>
    m_output (snd (forward E s input)) = m_output s \<and>
    m_callback (snd (forward E s input)) = m_callback s"
proof -
  note r = forward_run [OF assms]
  from r have "m_layers (snd (forward E s input)) = forward_layers E input (m_layers s)"
    by (intro forward_layers_char) simp_all
  with r show ?thesis by simp
qed

lemma backprop_state:
  assumes "m_layers s \<noteq> []" and "m_output s = Some out"
    and "Output_check_target_data E out target"
  shows "fst (backprop E s input target) = None \<and>
    m_layers (snd (backprop E s input target)) =
      fst (backprop_layers E input
             (Output_backprop_data E
                (Output_evaluate E out (Layer_output E (last (m_layers s))) target))
             (m_layers s)) \<and>
    m_output (snd (backprop E s input target)) =
      Some (Output_evaluate E out (Layer_output E (last (m_layers s))) target) \<and>
    m_callback (snd (backprop E s input target)) = m_callback s"
proof -
  note r = backprop_run [OF assms, of input]
  have l: "last (m_layers s) = m_layers s ! (length (m_layers s) - 1)"
    using assms(1) by (rule last_conv_nth)
  from r have "backprop_layers E input
             (Output_backprop_data E
                (Output_evaluate E out (Layer_output E (m_layers s ! (length (m_layers s) - 1))) target))
             (m_layers s) =
     (m_layers (snd (backprop E s input target)),
      if m_layers s = []
      then Output_backprop_data E
                (Output_evaluate E out (Layer_output E (m_layers s ! (length (m_layers s) - 1))) target)
      else Layer_backprop_data E (m_layers (snd (backprop E s input target)) ! 0))"
    by (intro backprop_layers_char) simp_all
  with r show ?thesis by (simp add: l)
qed

lemma train_batch_state:
  assumes "trainable E d s" and "m_output s = Some out"
    and "0 \<le> i" and "nat i < length x_batches" and "nat i < length y_batches"
    and "Matrix_rows E (x_batches ! nat i) = d"
    and "\<forall>out. Output_check_target_data E out (y_batches ! nat i)"
  shows "\<exists>out'. m_output (fst (snd (train_batch E x_batches y_batches i s opt))) = Some out' \<and>
    train_step E (x_batches ! nat i, y_batches ! nat i) (m_layers s, out, opt) =
      (m_layers (fst (snd (train_batch E x_batches y_batches i s opt))), out',
       snd (snd (train_batch E x_batches y_batches i s opt)))"
proof -
  define x where "x = x_batches ! nat i"
  define y where "y = y_batches ! nat i"
  from assms(1) obtain cb where
    ne: "m_layers s \<noteq> []" and d: "Layer_in_size E (m_layers s ! 0) = d" and
    cb: "m_callback s = Some cb"
    by (auto simp: trainable_def)
  define s1 where "s1 = s\<lparr>m_callback := Some (cb\<lparr>m_batch_id := i\<rparr>),
      calls := calls s @ [CallbackBatchId i]\<rparr>"
  define s2 where "s2 = s1\<lparr>m_callback :=
        Some (Callback_pre_training_batch E (cb\<lparr>m_batch_id := i\<rparr>) s1 x y),
      calls := calls s1 @ [PreTrainingBatch x y]\<rparr>"
  define s2' where "s2' = s2\<lparr>calls := calls s2 @ [NetworkForward x]\<rparr>"
  have w1: "callback_write (\<lambda>cb. cb\<lparr>m_batch_id := i\<rparr>) (CallbackBatchId i) s = (None, s1)"
    using cb by (simp add: callback_write_def s1_def)
  have h1: "callback_hook (Callback_pre_training_batch E) (PreTrainingBatch x y) x y s1 = (None, s2)"
    by (simp add: callback_hook_def s1_def s2_def)
  have l2: "m_layers s2' = m_layers s" "m_output s2' = Some out"
    using assms(2) by (simp_all add: s2'_def s2_def s1_def)
  have "m_layers s2' \<noteq> []" and "Matrix_rows E x = Layer_in_size E (m_layers s2' ! 0)"
    using ne d assms(6) by (simp_all add: l2 x_def)
  note f = forward_state [OF this]
  define s3 where "s3 = snd (forward E s2' x)"
  define ls1 where "ls1 = forward_layers E x (m_layers s)"
  have f3: "forward E s2' x = (None, s3)"
    using f by (simp add: s3_def prod_eq_iff)
  have l3: "m_layers s3 = ls1" "m_output s3 = Some out" "m_callback s3 = m_callback s2'"
    using f by (simp_all add: s3_def ls1_def l2)
  have ne1: "ls1 \<noteq> []"
    using ne by (cases "m_layers s") (simp_all add: ls1_def Let_def)
  define s3' where "s3' = s3\<lparr>calls := calls s3 @ [NetworkBackprop x y]\<rparr>"
  define out' where "out' = Output_evaluate E out (Layer_output E (last ls1)) y"
  define ls2 where "ls2 = fst (backprop_layers E x (Output_backprop_data E out') ls1)"
  have "m_layers s3' \<noteq> []" and "m_output s3' = Some out" and "Output_check_target_data E out y"
    using ne1 l3 assms(7) by (simp_all add: s3'_def y_def)
  note b = backprop_state [OF this, of x]
  define s4 where "s4 = snd (backprop E s3' x y)"
  have b4: "backprop E s3' x y = (None, s4)"
    using b by (simp add: s4_def prod_eq_iff)
  have l4: "m_layers s4 = ls2" "m_output s4 = Some out'" "m_callback s4 = m_callback s2'"
    using b l3 by (simp_all add: s4_def s3'_def ls2_def out'_def)
  define s4' where "s4' = s4\<lparr>calls := calls s4 @ [NetworkUpdate]\<rparr>"
  define s5 where "s5 = fst (update E s4' opt)"
  define opt' where "opt' = snd (update_layers E ls2 opt)"
  define ls3 where "ls3 = fst (update_layers E ls2 opt)"
  have u: "update E s4' opt = (s5, opt')"
    using update_state [of E s4' opt] l4 by (simp add: s5_def opt'_def s4'_def)
  have l5: "m_layers s5 = ls3" "m_output s5 = Some out'" "m_callback s5 = m_callback s2'"
    using update_state [of E s4' opt] l4 by (simp_all add: s5_def ls3_def s4'_def)
  have cb5: "m_callback s5 = Some (Callback_pre_training_batch E (cb\<lparr>m_batch_id := i\<rparr>) s1 x y)"
    using l5 by (simp add: s2'_def s2_def)
  define s6 where "s6 = s5\<lparr>m_callback := Some (Callback_post_training_batch E
        (Callback_pre_training_batch E (cb\<lparr>m_batch_id := i\<rparr>) s1 x y) s5 x y),
      calls := calls s5 @ [PostTrainingBatch x y]\<rparr>"
  have h2: "callback_hook (Callback_post_training_batch E) (PostTrainingBatch x y) x y s5 = (None, s6)"
    using cb5 by (simp add: callback_hook_def s6_def)
  have run: "train_batch E x_batches y_batches i s opt = (None, s6, opt')"
    using assms(3,4,5) w1 h1 f3 b4 u h2
    by (simp add: train_batch_def Let_def x_def [symmetric] y_def [symmetric]
        s2'_def [symmetric] s3'_def [symmetric] s4'_def [symmetric])
  have "update_layers E ls2 opt = (ls3, opt')"
    by (simp add: ls3_def opt'_def)
  then have ts: "train_step E (x, y) (m_layers s, out, opt) = (ls3, out', opt')"
    by (simp add: Let_def ls1_def [symmetric] out'_def [symmetric] ls2_def [symmetric])
  have "m_output s6 = Some out'" and "m_layers s6 = ls3"
    using l5 by (simp_all add: s6_def)
  with ts show ?thesis
    unfolding run x_def [symmetric] y_def [symmetric] by simp
qed


lemma batch_loop_state:
  assumes "trainable E d s" and "m_output s = Some out" and "0 \<le> i"
    and "nat nbatch \<le> length x_batches" and "nat nbatch \<le> length y_batches"
    and "\<forall>j<nat nbatch. Matrix_rows E (x_batches ! j) = d"
    and "\<forall>out. \<forall>j<nat nbatch. Output_check_target_data E out (y_batches ! j)"
    and "\<forall>l x. Layer_in_size E (Layer_forward E l x) = Layer_in_size E l"
    and "\<forall>l x g. Layer_in_size E (Layer_backprop E l x g) = Layer_in_size E l"
    and "\<forall>l p. Layer_in_size E (fst (Layer_update E l p)) = Layer_in_size E l"
  shows "\<exists>out'. m_output (fst (snd (batch_loop E x_batches y_batches i nbatch s opt))) = Some out' \<and>
    fold (train_step E) (map (\<lambda>j. (x_batches ! j, y_batches ! j)) [nat i..<nat nbatch])
      (m_layers s, out, opt) =
      (m_layers (fst (snd (batch_loop E x_batches y_batches i nbatch s opt))), out',
       snd (snd (batch_loop E x_batches y_batches i nbatch s opt)))"
  using assms(1,2,3)
proof (induction "nat (nbatch - i)" arbitrary: i s opt out)
  case 0
  then have "batch_loop E x_batches y_batches i nbatch s opt = (None, s, opt)"
    by (subst batch_loop.simps) simp
  moreover have "[nat i..<nat nbatch] = []" using 0 by simp
  ultimately show ?case using 0 by simp
next
  case (Suc n)
  then have i: "i < nbatch" "0 \<le> i" by simp_all
  then have ni: "nat i < nat nbatch" by simp
  have b1: "nat i < length x_batches" using ni assms(4) by linarith
  have b2: "nat i < length y_batches" using ni assms(5) by linarith
  have b3: "Matrix_rows E (x_batches ! nat i) = d" using ni assms(6) by blast
  have b4: "\<forall>out. Output_check_target_data E out (y_batches ! nat i)"
    using ni assms(7) by blast
  from train_batch_run [OF Suc.prems(1) i(2) b1 b2 b3 b4 assms(8,9,10), of opt]
  obtain s1 opt1 where
    t: "train_batch E x_batches y_batches i s opt = (None, s1, opt1)" and
    inv1: "trainable E d s1"
    by blast
  from train_batch_state [OF Suc.prems(1,2) i(2) b1 b2 b3 b4, of opt]
  obtain out1 where o1: "m_output s1 = Some out1" and
    ts: "train_step E (x_batches ! nat i, y_batches ! nat i) (m_layers s, out, opt) =
      (m_layers s1, out1, opt1)"
    unfolding t by auto
  have step: "batch_loop E x_batches y_batches i nbatch s opt =
      batch_loop E x_batches y_batches (i + 1) nbatch s1 opt1"
    using i t by (subst batch_loop.simps) simp
  have n: "n = nat (nbatch - (i + 1))" using Suc.hyps(2) by simp
  have "0 \<le> i + 1" using i by simp
  note IH = Suc.hyps(1) [OF n inv1 o1 this, of opt1]
  have "nat (i + 1) = Suc (nat i)" using i by simp
  with ni have "[nat i..<nat nbatch] = nat i # [nat (i + 1)..<nat nbatch]"
    by (simp add: upt_conv_Cons)
  with IH ts show ?case
    unfolding step by simp
qed

lemma epoch_loop_state:
  assumes "trainable E d s" and "m_output s = Some out" and "0 \<le> k"
    and "nat nbatch \<le> length x_batches" and "nat nbatch \<le> length y_batches"
    and "\<forall>j<nat nbatch. Matrix_rows E (x_batches ! j) = d"
    and "\<forall>out. \<forall>j<nat nbatch. Output_check_target_data E out (y_batches ! j)"
    and "\<forall>l x. Layer_in_size E (Layer_forward E l x) = Layer_in_size E l"
    and "\<forall>l x g. Layer_in_size E (Layer_backprop E l x g) = Layer_in_size E l"
    and "\<forall>l p. Layer_in_size E (fst (Layer_update E l p)) = Layer_in_size E l"
  shows "\<exists>out'.
    m_output (fst (snd (epoch_loop E x_batches y_batches nbatch k epoch s opt))) = Some out' \<and>
    fold (train_step E)
      (concat (replicate (nat (epoch - k))
         (map (\<lambda>j. (x_batches ! j, y_batches ! j)) [0..<nat nbatch])))
      (m_layers s, out, opt) =
      (m_layers (fst (snd (epoch_loop E x_batches y_batches nbatch k epoch s opt))), out',
       snd (snd (epoch_loop E x_batches y_batches nbatch k epoch s opt)))"
  using assms(1,2,3)
proof (induction "nat (epoch - k)" arbitrary: k s opt out)
  case 0
  then have "epoch_loop E x_batches y_batches nbatch k epoch s opt = (None, s, opt)"
    by (subst epoch_loop.simps) simp
  with 0 show ?case by simp
next
  case (Suc n)
  then have k: "k < epoch" "0 \<le> k" by simp_all
  from Suc.prems(1) obtain cb where cb: "m_callback s = Some cb"
    by (auto simp: trainable_def)
  define s1 where "s1 = s\<lparr>m_callback := Some (cb\<lparr>m_epoch_id := k\<rparr>),
      calls := calls s @ [CallbackEpochId k]\<rparr>"
  have w: "callback_write (\<lambda>cb. cb\<lparr>m_epoch_id := k\<rparr>) (CallbackEpochId k) s = (None, s1)"
    using cb by (simp add: callback_write_def s1_def)
  have inv1: "trainable E d s1"
    using Suc.prems(1) by (simp add: trainable_def s1_def)
  have o1: "m_output s1 = Some out" and m1: "m_layers s1 = m_layers s"
    using Suc.prems(2) by (simp_all add: s1_def)
  have z: "(0::int) \<le> 0" by simp
  from batch_loop_run [OF inv1 z assms(4,5,6,7,8,9,10), of opt]
  obtain s2 opt2 where
    b: "batch_loop E x_batches y_batches 0 nbatch s1 opt = (None, s2, opt2)" and
    inv2: "trainable E d s2"
    by blast
  from batch_loop_state [OF inv1 o1 z assms(4,5,6,7,8,9,10), of opt]
  obtain out2 where o2: "m_output s2 = Some out2" and
    bs: "fold (train_step E) (map (\<lambda>j. (x_batches ! j, y_batches ! j)) [0..<nat nbatch])
      (m_layers s, out, opt) = (m_layers s2, out2, opt2)"
    unfolding b by (auto simp: m1)
  have step: "epoch_loop E x_batches y_batches nbatch k epoch s opt =
      epoch_loop E x_batches y_batches nbatch (k + 1) epoch s2 opt2"
    using k w b by (subst epoch_loop.simps) simp
  have n: "n = nat (epoch - (k + 1))" using Suc.hyps(2) by simp
  have "0 \<le> k + 1" using k by simp
  note IH = Suc.hyps(1) [OF n inv2 o2 this, of opt2]
  have "nat (epoch - k) = Suc (nat (epoch - (k + 1)))" using k by simp
  with IH bs show ?case
    unfolding step by simp
qed

lemmas toy_simps = toy_def toy_layer1_def toy_layer2_def toy_callback_def toy_network_def
      Network_default_def addLayer_def setOutput_def setCallback_def toy_x_def toy_y_def
      num_layers_def forward_def forward_loop.simps Layer_forward_at_def numeral_2_eq_2
      backprop_def backprop_loop.simps Layer_backprop_at_def Let_def
      update_def update_loop.simps Layer_update_at_def
      fit_def epoch_loop.simps batch_loop.simps train_batch_def callback_write_def callback_hook_def

text \<open>
  The schedule of \<^verbatim>\<open>fit\<close> when both handles are set.  Let the network have a layer, a
  callback and an output head, let \<^verbatim>\<open>create_shuffled_batches\<close> return \<open>nbatch\<close> together
  with that many batches, let every batch have as many rows as the first layer takes and
  a target that the output head accepts, and let the layers keep their input size.  Then
  \<^verbatim>\<open>fit\<close> returns \<^verbatim>\<open>true\<close>, and the calls made by its own body are, in this order: the
  reset of the optimizer, the seeding if \<open>seed > 0\<close>, the making of the batches, the
  writes of \<open>nbatch\<close> and \<open>epoch\<close> to the callback, and then for each epoch
  \<open>k = 0, ..., epoch - 1\<close> the write of \<open>k\<close> to the callback's epoch counter followed, for
  each batch \<open>i = 0, ..., nbatch - 1\<close>, by the write of \<open>i\<close> to its batch counter, the hook
  before the batch, \<^verbatim>\<open>forward\<close> on the batch predictors, \<^verbatim>\<open>backprop\<close> on predictors and
  targets, \<^verbatim>\<open>update\<close>, and the hook after the batch.  Each \<^verbatim>\<open>update\<close> calls the optimizer
  step of every layer, in pipeline order.
\<close>

lemma fit_schedule:
  fixes s :: "('a, 'b, 'c, 'd, 'f, 'g, 'h) Network"
  assumes "num_layers s \<noteq> 0" and "m_callback s \<noteq> None" and "m_output s \<noteq> None"
    and "create_shuffled_batches E x y batch_size
           (if seed > 0 then Rng_seed E seed else m_rng s) = (nbatch, x_batches, y_batches, rng')"
    and "int (length x_batches) = nbatch" and "int (length y_batches) = nbatch"
    and "\<forall>j<nat nbatch. Matrix_rows E (x_batches ! j) = Layer_in_size E (m_layers s ! 0)"
    and "\<forall>out. \<forall>j<nat nbatch. Output_check_target_data E out (y_batches ! j)"
    and "\<forall>l x. Layer_in_size E (Layer_forward E l x) = Layer_in_size E l"
    and "\<forall>l x g. Layer_in_size E (Layer_backprop E l x g) = Layer_in_size E l"
    and "\<forall>l p. Layer_in_size E (fst (Layer_update E l p)) = Layer_in_size E l"
  shows "\<exists>s' opt' cs. fit E s opt x y batch_size epoch seed = (Inr True, s', opt') \<and>
    calls s' = calls s @ cs \<and>
    filter made_by_fit cs =
      OptimizerReset # (if seed > 0 then [RngSeed seed] else []) @
      [CreateShuffledBatches batch_size, CallbackNBatch nbatch, CallbackNEpoch epoch] @
      concat (map (epoch_calls x_batches y_batches (nat nbatch)) [0..<nat epoch]) \<and>
    (\<forall>s0 opt0. calls (fst (update E s0 opt0)) =
       calls s0 @ map LayerUpdate [0..<num_layers s0])"
proof -
  have ne: "m_layers s \<noteq> []" using assms(1) by (auto simp: num_layers_def)
  have l1: "nat nbatch \<le> length x_batches" and l2: "nat nbatch \<le> length y_batches"
    using assms(5,6) by auto
  have u: "calls (fst (update E s0 opt0)) = calls s0 @ map LayerUpdate [0..<num_layers s0]"
    for s0 :: "('a, 'b, 'c, 'd, 'f, 'g, 'h) Network" and opt0
  proof (cases "num_layers s0 \<le> 0")
    case True
    then show ?thesis by (simp add: update_def Let_def)
  next
    case False
    have "length (m_layers s0) \<le> length (m_layers s0)" by simp
    from update_loop_run [OF this assms(11), of 0 opt0] False show ?thesis
      by (simp add: update_def Let_def num_layers_def)
  qed
  from fit_run [OF ne assms(2,3,4) l1 l2 assms(7,8,9,10,11), of opt epoch] u
  show ?thesis by blast
qed

lemma fit_schedule_example:
  "num_layers toy_network \<noteq> 0 \<and> m_callback toy_network \<noteq> None \<and> m_output toy_network \<noteq> None \<and>
   create_shuffled_batches toy toy_x toy_y 2 (m_rng toy_network) =
     (2, [[[2], [3]], [[1]]], [[[1], [0]], [[0]]], 2) \<and>
   fst (fit toy toy_network 7 toy_x toy_y 2 5 (- 1)) = Inr True \<and>
   m_callback (fst (snd (fit toy toy_network 7 toy_x toy_y 2 5 (- 1)))) =
     Some \<lparr>m_nbatch = 2, m_nepoch = 5, m_batch_id = 1, m_epoch_id = 4\<rparr> \<and>
   filter is_counter_write (calls (fst (snd (fit toy toy_network 7 toy_x toy_y 2 5 (- 1))))) =
     [CallbackNBatch 2, CallbackNEpoch 5,
      CallbackEpochId 0, CallbackBatchId 0, CallbackBatchId 1,
      CallbackEpochId 1, CallbackBatchId 0, CallbackBatchId 1,
      CallbackEpochId 2, CallbackBatchId 0, CallbackBatchId 1,
      CallbackEpochId 3, CallbackBatchId 0, CallbackBatchId 1,
      CallbackEpochId 4, CallbackBatchId 0, CallbackBatchId 1] \<and>
   filter made_by_fit (calls (fst (snd (fit toy toy_network 7 toy_x toy_y 2 1 (- 1))))) =
     [OptimizerReset, CreateShuffledBatches 2, CallbackNBatch 2, CallbackNEpoch 1,
      CallbackEpochId 0,
      CallbackBatchId 0, PreTrainingBatch [[2], [3]] [[1], [0]], NetworkForward [[2], [3]],
      NetworkBackprop [[2], [3]] [[1], [0]], NetworkUpdate, PostTrainingBatch [[2], [3]] [[1], [0]],
      CallbackBatchId 1, PreTrainingBatch [[1]] [[0]], NetworkForward [[1]],
      NetworkBackprop [[1]] [[0]], NetworkUpdate, PostTrainingBatch [[1]] [[0]]]"
proof -
  have 1: "num_layers toy_network \<noteq> 0" "m_callback toy_network \<noteq> None" "m_output toy_network \<noteq> None"
    by (simp_all add: toy_simps)
  have 4: "create_shuffled_batches toy toy_x toy_y 2
       (if (- 1 :: int) > 0 then Rng_seed toy (- 1) else m_rng toy_network) =
     (2, [[[2], [3]], [[1]]], [[[1], [0]], [[0]]], 2)"
    by (simp add: toy_simps)
  have 5: "int (length [[[2], [3]], [[1 :: int]]]) = 2" "int (length [[[1], [0]], [[0 :: int]]]) = 2"
    by simp_all
  have 7: "\<forall>j<nat 2. Matrix_rows toy ([[[2], [3]], [[1]]] ! j) = Layer_in_size toy (m_layers toy_network ! 0)"
    by (simp add: toy_simps less_Suc_eq)
  have 8: "\<forall>out. \<forall>j<nat 2. Output_check_target_data toy out ([[[1], [0]], [[0]]] ! j)"
    by (simp add: toy_simps less_Suc_eq)
  have 9: "\<forall>l x. Layer_in_size toy (Layer_forward toy l x) = Layer_in_size toy l"
    "\<forall>l x g. Layer_in_size toy (Layer_backprop toy l x g) = Layer_in_size toy l"
    "\<forall>l p. Layer_in_size toy (fst (Layer_update toy l p)) = Layer_in_size toy l"
    by (simp_all add: toy_def)
  from fit_schedule [OF 1 4 5 7 8 9, of 7 5] 1 4 show ?thesis
    by (simp add: toy_simps)
qed

text \<open>
  What the training does to the network.  Under the hypotheses of the schedule above, the
  layers, the output head and the optimizer that \<^verbatim>\<open>fit\<close> leaves are those obtained from
  the layers and the output head of the network and from the reset optimizer by one
  training step per batch, batch after batch and epoch after epoch, on the one partition
  made at the start: \<^verbatim>\<open>forward\<close> on the predictors of the batch, the evaluation of the
  output head on the last layer's output and the targets of the batch, \<^verbatim>\<open>backprop\<close>
  from the gradient of the output head, and the optimizer step on every layer.
\<close>

lemma fit_training:
  assumes "m_layers s \<noteq> []" and "m_callback s \<noteq> None" and "m_output s = Some out"
    and "create_shuffled_batches E x y batch_size
           (if seed > 0 then Rng_seed E seed else m_rng s) = (nbatch, x_batches, y_batches, rng')"
    and "int (length x_batches) = nbatch" and "int (length y_batches) = nbatch"
    and "\<forall>j<nat nbatch. Matrix_rows E (x_batches ! j) = Layer_in_size E (m_layers s ! 0)"
    and "\<forall>out. \<forall>j<nat nbatch. Output_check_target_data E out (y_batches ! j)"
    and "\<forall>l x. Layer_in_size E (Layer_forward E l x) = Layer_in_size E l"
    and "\<forall>l x g. Layer_in_size E (Layer_backprop E l x g) = Layer_in_size E l"
    and "\<forall>l p. Layer_in_size E (fst (Layer_update E l p)) = Layer_in_size E l"
  shows "\<exists>out'. m_output (fst (snd (fit E s opt x y batch_size epoch seed))) = Some out' \<and>
    fold (train_step E) (concat (replicate (nat epoch) (zip x_batches y_batches)))
      (m_layers s, out, Optimizer_reset E opt) =
      (m_layers (fst (snd (fit E s opt x y batch_size epoch seed))), out',
       snd (snd (fit E s opt x y batch_size epoch seed)))"
proof -
  from assms(2) obtain cb where cb: "m_callback s = Some cb" by auto
  define s5 where "s5 = s\<lparr>m_rng := rng',
      m_callback := Some (cb\<lparr>m_nbatch := nbatch, m_nepoch := epoch\<rparr>),
      calls := calls s @ OptimizerReset # (if seed > 0 then [RngSeed seed] else []) @
      [CreateShuffledBatches batch_size, CallbackNBatch nbatch, CallbackNEpoch epoch]\<rparr>"
  have inv5: "trainable E (Layer_in_size E (m_layers s ! 0)) s5"
    using assms(1,3) by (simp add: trainable_def s5_def)
  have o5: "m_output s5 = Some out" and m5: "m_layers s5 = m_layers s"
    using assms(3) by (simp_all add: s5_def)
  have l1: "nat nbatch \<le> length x_batches" and l2: "nat nbatch \<le> length y_batches"
    using assms(5,6) by auto
  have z: "(0::int) \<le> 0" by simp
  from epoch_loop_run [OF inv5 z l1 l2 assms(7,8,9,10,11), of epoch "Optimizer_reset E opt"]
  obtain s' opt' where
    r: "epoch_loop E x_batches y_batches nbatch 0 epoch s5 (Optimizer_reset E opt) = (None, s', opt')"
    by blast
  have eq: "fit E s opt x y batch_size epoch seed = (Inr True, s', opt')"
  proof (cases "seed > 0")
    case True
    with assms(1,4) cb r show ?thesis
      by (simp add: fit_def Let_def num_layers_def callback_write_def s5_def)
  next
    case False
    with assms(1,4) cb r show ?thesis
      by (simp add: fit_def Let_def num_layers_def callback_write_def s5_def)
  qed
  have zp: "map (\<lambda>j. (x_batches ! j, y_batches ! j)) [0..<nat nbatch] = zip x_batches y_batches"
    using assms(5,6) by (intro nth_equalityI) auto
  from epoch_loop_state [OF inv5 o5 z l1 l2 assms(7,8,9,10,11), of epoch "Optimizer_reset E opt"]
  show ?thesis
    unfolding eq r by (simp add: zp m5)
qed

lemma fit_training_example:
  "m_layers toy_network = [toy_layer1, toy_layer2] \<and> m_output toy_network = Some [] \<and>
   train_step toy ([[1]], [[0]])
     (train_step toy ([[2], [3]], [[1], [0]]) ([toy_layer1, toy_layer2], [], 0)) =
     ([\<lparr>t_in = 1, t_out = 2, t_output = [[6, 6]], t_grad = [[32]], t_params = [1, 2]\<rparr>,
       \<lparr>t_in = 2, t_out = 1, t_output = [[16]], t_grad = [[16, 16]], t_params = [3]\<rparr>],
      [[16]], 4) \<and>
   m_layers (fst (snd (fit toy toy_network 7 toy_x toy_y 2 1 (- 1)))) =
     [\<lparr>t_in = 1, t_out = 2, t_output = [[6, 6]], t_grad = [[32]], t_params = [1, 2]\<rparr>,
      \<lparr>t_in = 2, t_out = 1, t_output = [[16]], t_grad = [[16, 16]], t_params = [3]\<rparr>] \<and>
   m_output (fst (snd (fit toy toy_network 7 toy_x toy_y 2 1 (- 1)))) = Some [[16]] \<and>
   snd (snd (fit toy toy_network 7 toy_x toy_y 2 1 (- 1))) = 4"
proof -
  have 1: "m_layers toy_network \<noteq> []" "m_callback toy_network \<noteq> None" "m_output toy_network = Some []"
    by (simp_all add: toy_simps)
  have 4: "create_shuffled_batches toy toy_x toy_y 2
       (if (- 1 :: int) > 0 then Rng_seed toy (- 1) else m_rng toy_network) =
     (2, [[[2], [3]], [[1]]], [[[1], [0]], [[0]]], 2)"
    by (simp add: toy_simps)
  have 5: "int (length [[[2], [3]], [[1 :: int]]]) = 2" "int (length [[[1], [0]], [[0 :: int]]]) = 2"
    by simp_all
  have 7: "\<forall>j<nat 2. Matrix_rows toy ([[[2], [3]], [[1]]] ! j) = Layer_in_size toy (m_layers toy_network ! 0)"
    by (simp add: toy_simps less_Suc_eq)
  have 8: "\<forall>out. \<forall>j<nat 2. Output_check_target_data toy out ([[[1], [0]], [[0]]] ! j)"
    by (simp add: toy_simps less_Suc_eq)
  have 9: "\<forall>l x. Layer_in_size toy (Layer_forward toy l x) = Layer_in_size toy l"
    "\<forall>l x g. Layer_in_size toy (Layer_backprop toy l x g) = Layer_in_size toy l"
    "\<forall>l p. Layer_in_size toy (fst (Layer_update toy l p)) = Layer_in_size toy l"
    by (simp_all add: toy_def)
  have t: "train_step toy ([[1]], [[0]])
     (train_step toy ([[2], [3]], [[1], [0]]) ([toy_layer1, toy_layer2], [], 0)) =
     ([\<lparr>t_in = 1, t_out = 2, t_output = [[6, 6]], t_grad = [[32]], t_params = [1, 2]\<rparr>,
       \<lparr>t_in = 2, t_out = 1, t_output = [[16]], t_grad = [[16, 16]], t_params = [3]\<rparr>],
      [[16]], 4)"
    by (simp add: toy_def toy_layer1_def toy_layer2_def Let_def numeral_2_eq_2)
  have m: "m_layers toy_network = [toy_layer1, toy_layer2]"
    by (simp add: toy_network_def Network_default_def addLayer_def setOutput_def setCallback_def)
  have r: "Optimizer_reset toy 7 = 0"
    by (simp add: toy_def)
  have c: "concat (replicate (nat 1) (zip [[[2], [3]], [[1]]] [[[1], [0]], [[0 :: int]]])) =
      [([[2], [3]], [[1], [0]]), ([[1 :: int]], [[0]])]"
    by simp
  from fit_training [OF 1 4 5 7 8 9, of 7 1]
  obtain out' where
    o: "m_output (fst (snd (fit toy toy_network 7 toy_x toy_y 2 1 (- 1)))) = Some out'" and
    e: "train_step toy ([[1]], [[0]])
       (train_step toy ([[2], [3]], [[1], [0]]) ([toy_layer1, toy_layer2], [], 0)) =
     (m_layers (fst (snd (fit toy toy_network 7 toy_x toy_y 2 1 (- 1)))), out',
      snd (snd (fit toy toy_network 7 toy_x toy_y 2 1 (- 1))))"
    unfolding c m r by auto
  from e [symmetric] t have
    "(m_layers (fst (snd (fit toy toy_network 7 toy_x toy_y 2 1 (- 1)))), out',
      snd (snd (fit toy toy_network 7 toy_x toy_y 2 1 (- 1)))) =
     ([\<lparr>t_in = 1, t_out = 2, t_output = [[6, 6]], t_grad = [[32]], t_params = [1, 2]\<rparr>,
       \<lparr>t_in = 2, t_out = 1, t_output = [[16]], t_grad = [[16, 16]], t_params = [3]\<rparr>],
      [[16]], 4)"
    by (rule trans)
  then have a:
    "m_layers (fst (snd (fit toy toy_network 7 toy_x toy_y 2 1 (- 1)))) =
     [\<lparr>t_in = 1, t_out = 2, t_output = [[6, 6]], t_grad = [[32]], t_params = [1, 2]\<rparr>,
      \<lparr>t_in = 2, t_out = 1, t_output = [[16]], t_grad = [[16, 16]], t_params = [3]\<rparr>]"
    "out' = [[16]]"
    "snd (snd (fit toy toy_network 7 toy_x toy_y 2 1 (- 1))) = 4"
    by simp_all
  note o' = o [unfolded a(2)]
  show ?thesis
    apply (intro conjI)
         apply (rule m)
        apply (rule 1(3))
       apply (rule t)
      apply (rule a(1))
     apply (rule o')
    apply (rule a(3))
    done
qed

text \<open>
  Claim C4.  The schedule and the training above need the callback handle to be set.
  Both constructors leave \<^verbatim>\<open>m_callback\<close> null, and \<^verbatim>\<open>addLayer\<close> and \<^verbatim>\<open>setOutput\<close> do not touch it; only
  \<^verbatim>\<open>setCallback\<close> sets it.  On a network with a layer and a null callback handle \<^verbatim>\<open>fit\<close>
  resets the optimizer, seeds if \<open>seed > 0\<close>, makes the batches and then reaches
  \<^verbatim>\<open>m_callback->m_nbatch = nbatch\<close>: it dereferences the null handle.  No counter of a
  callback is written, no hook is called, no batch is trained and there is no return
  value.
\<close>

theorem fit_null_callback:
  fixes s :: "('l, 'o, 'c, 'r, 'm, 't, 's) Network"
  shows
  "m_callback (Network_default E) = None \<and>
   m_callback (addLayer layer s) = m_callback s \<and>
   m_callback (setOutput out s) = m_callback s \<and>
   (num_layers s \<noteq> 0 \<and> m_callback s = None \<longrightarrow>
      fst (fit E s opt x y batch_size epoch seed) = Inl NullPointer \<and>
      calls (fst (snd (fit E s opt x y batch_size epoch seed))) =
        calls s @ OptimizerReset # (if seed > 0 then [RngSeed seed] else []) @
        [CreateShuffledBatches batch_size] \<and>
      m_layers (fst (snd (fit E s opt x y batch_size epoch seed))) = m_layers s)"
proof (intro conjI impI)
  show "m_callback (Network_default E) = None"
    by (simp add: Network_default_def)
  show "m_callback (addLayer layer s) = m_callback s"
    by (simp add: addLayer_def)
  show "m_callback (setOutput out s) = m_callback s"
    by (simp add: setOutput_def)
next
  assume a: "num_layers s \<noteq> 0 \<and> m_callback s = None"
  obtain nbatch x_batches y_batches rng' where
    b: "create_shuffled_batches E x y batch_size
          (if seed > 0 then Rng_seed E seed else m_rng s) = (nbatch, x_batches, y_batches, rng')"
    by (metis prod_cases4)
  define pre :: "('m, 't, 's) call list" where
    "pre = OptimizerReset # (if seed > 0 then [RngSeed seed] else []) @
        [CreateShuffledBatches batch_size]"
  have r: "fit E s opt x y batch_size epoch seed =
      (Inl NullPointer, s\<lparr>m_rng := rng', calls := calls s @ pre\<rparr>, Optimizer_reset E opt)"
  proof (cases "seed > 0")
    case True
    with a b show ?thesis
      by (simp add: fit_def Let_def callback_write_def pre_def)
  next
    case False
    with a b show ?thesis
      by (simp add: fit_def Let_def callback_write_def pre_def)
  qed
  show "fst (fit E s opt x y batch_size epoch seed) = Inl NullPointer"
    by (simp add: r)
  show "calls (fst (snd (fit E s opt x y batch_size epoch seed))) =
        calls s @ OptimizerReset # (if seed > 0 then [RngSeed seed] else []) @
        [CreateShuffledBatches batch_size]"
    by (simp add: r pre_def)
  show "m_layers (fst (snd (fit E s opt x y batch_size epoch seed))) = m_layers s"
    by (simp add: r)
qed

theorem fit_null_callback_witness:
  "num_layers toy_network_no_callback \<noteq> 0 \<and>
   m_callback toy_network_no_callback = None \<and>
   m_output toy_network_no_callback = Some [] \<and>
   fit toy toy_network_no_callback 7 toy_x toy_y 2 5 (- 1) =
     (Inl NullPointer,
      toy_network_no_callback\<lparr>m_rng := 2, calls := [OptimizerReset, CreateShuffledBatches 2]\<rparr>,
      0)"
  using fit_null_callback [of toy toy_layer1 toy_network_no_callback "[]" 7 toy_x toy_y 2 5 "- 1"]
  by (simp add: toy_network_no_callback_def toy_simps)

text \<open>
  Claim C6.  On a network without layers \<^verbatim>\<open>fit\<close> returns \<^verbatim>\<open>false\<close> and throws nothing; the
  network with its log of calls and its callback, and the optimizer, are as before, so
  no counter of the callback is written and no hook is called.  Conversely \<^verbatim>\<open>fit\<close>
  returns \<^verbatim>\<open>false\<close> only on a network without layers.
\<close>

theorem fit_empty_pipeline:
  "(num_layers s = 0 \<longrightarrow> fit E s opt x y batch_size epoch seed = (Inr False, s, opt)) \<and>
   (fst (fit E s opt x y batch_size epoch seed) = Inr False \<longrightarrow> num_layers s = 0)"
proof (intro conjI impI)
  assume "num_layers s = 0"
  then show "fit E s opt x y batch_size epoch seed = (Inr False, s, opt)"
    by (simp add: fit_def Let_def)
next
  assume r: "fst (fit E s opt x y batch_size epoch seed) = Inr False"
  show "num_layers s = 0"
  proof (rule ccontr)
    assume "num_layers s \<noteq> 0"
    then have "fst (fit E s opt x y batch_size epoch seed) \<noteq> Inr False"
      by (simp add: fit_def Let_def split: prod.splits option.splits)
    with r show False by contradiction
  qed
qed


theorem fit_empty_pipeline_witness:
  "num_layers (setCallback toy_callback (Network_default toy)) = 0 \<and>
   fit toy (setCallback toy_callback (Network_default toy)) 7 toy_x toy_y 2 5 (- 1) =
     (Inr False, setCallback toy_callback (Network_default toy), 7) \<and>
   fit toy (Network_default toy) 7 toy_x toy_y 2 5 (- 1) = (Inr False, Network_default toy, 7) \<and>
   num_layers toy_network \<noteq> 0 \<and>
   fst (fit toy toy_network 7 toy_x toy_y 2 1 (- 1)) = Inr True"
  using fit_empty_pipeline [of "setCallback toy_callback (Network_default toy)" toy 7 toy_x toy_y 2 5 "- 1"]
    fit_empty_pipeline [of "Network_default toy" toy 7 toy_x toy_y 2 5 "- 1"]
    fit_empty_pipeline [of toy_network toy 7 toy_x toy_y 2 1 "- 1"]
  by (simp add: toy_simps)




end
